theory Spec2Isabelle
  imports
    Main
    "HOL-Library.Sublist"
    "HOL-Library.Char_ord"
    "HOL-Library.List_Lexorder"
    "HOL-Library.Multiset"
begin

section \<open>The post index and RSS generator (gen-rss.js)\<close>

text \<open>
  The program scans \<^verbatim>\<open>pages/posts\<close> for \<^verbatim>\<open>.mdx\<close> documents, extracts one post
  record from each, keeps the posts dated at or before the moment the run started, sorts
  them newest first and writes two files: a JavaScript module listing the posts and an
  RSS feed. The definitions below follow \<^verbatim>\<open>src/gen-rss.js\<close> function by function.

  JavaScript strings are modelled as \<^typ>\<open>string\<close>, each \<^typ>\<open>char\<close> standing for one
  code unit. Calls into the platform (the MDX compiler, the date parser, the JSON printer,
  the RSS drawing function of the compiled Reason module) are parameters of the model.
\<close>

subsection \<open>The url path of a post\<close>

text \<open>
  \<^verbatim>\<open>postPath.replace(/\\/, '/').replace(/^pages/, '').replace(/\.mdx?$/, '')\<close>

  A regular expression without the \<^verbatim>\<open>g\<close> flag replaces its leftmost match only.
\<close>

definition backslash :: char where
  "backslash = CHR 0x5C"

text \<open>\<^verbatim>\<open>s.replace(/\\/, '/')\<close> for a one-character pattern \<open>a\<close> and replacement \<open>b\<close>.\<close>

fun replace_first :: "char \<Rightarrow> char \<Rightarrow> string \<Rightarrow> string" where
  "replace_first a b [] = []"
| "replace_first a b (c # cs) = (if c = a then b # cs else c # replace_first a b cs)"

text \<open>\<^verbatim>\<open>s.replace(/^pages/, '')\<close>: the pattern is anchored at the start of the string.\<close>

definition strip_pages :: "string \<Rightarrow> string" where
  "strip_pages s = (if prefix ''pages'' s then drop (length ''pages'') s else s)"

text \<open>
  \<^verbatim>\<open>s.replace(/\.mdx?$/, '')\<close>: the matcher tries each start position from the left; the
  pattern matches at a position exactly when the rest of the string is \<^verbatim>\<open>.md\<close> or
  \<^verbatim>\<open>.mdx\<close>, and the match is replaced by the empty string.
\<close>

fun strip_mdx :: "string \<Rightarrow> string" where
  "strip_mdx [] = []"
| "strip_mdx (c # cs) =
     (if c # cs = ''.md'' \<or> c # cs = ''.mdx'' then [] else c # strip_mdx cs)"

definition urlPath_of :: "string \<Rightarrow> string" where
  "urlPath_of postPath = strip_mdx (strip_pages (replace_first backslash CHR ''/'' postPath))"

text \<open>
  The transform in the words of the specification: the first backslash, if any, becomes
  a forward slash; a leading \<^verbatim>\<open>pages\<close> is dropped; a trailing \<^verbatim>\<open>.mdx\<close> or \<^verbatim>\<open>.md\<close> is dropped.
\<close>

definition first_backslash_to_slash :: "string \<Rightarrow> string" where
  "first_backslash_to_slash s =
     (if backslash \<in> set s
      then takeWhile (\<lambda>c. c \<noteq> backslash) s @ CHR ''/'' # tl (dropWhile (\<lambda>c. c \<noteq> backslash) s)
      else s)"

definition drop_extension :: "string \<Rightarrow> string" where
  "drop_extension s =
     (if suffix ''.mdx'' s then take (length s - 4) s
      else if suffix ''.md'' s then take (length s - 3) s
      else s)"

definition urlPath_spec :: "string \<Rightarrow> string" where
  "urlPath_spec p = drop_extension (strip_pages (first_backslash_to_slash p))"

subsection \<open>Errors\<close>

text \<open>
  The script catches nothing: an exception raised anywhere ends the run. Every function
  that can raise returns \<open>Inl\<close> of the error, and its callers pass the error on.
\<close>

datatype error =
    TypeError       \<comment> \<open>a property read from \<^verbatim>\<open>undefined\<close>\<close>
  | CompileError    \<comment> \<open>the document could not be compiled or evaluated\<close>
  | ReadFileError   \<comment> \<open>\<^verbatim>\<open>fs.readFileSync\<close> failed\<close>
  | ReadDirError    \<comment> \<open>\<^verbatim>\<open>fs.readdirSync\<close> failed\<close>
  | StatError       \<comment> \<open>\<^verbatim>\<open>fs.statSync\<close> failed\<close>
  | WriteError      \<comment> \<open>\<^verbatim>\<open>fs.writeFileSync\<close> failed\<close>

subsection \<open>Scanning the directory tree\<close>

text \<open>
  What \<^verbatim>\<open>fs.statSync\<close> finds at a path: a regular file, a directory with its entries
  in the order \<^verbatim>\<open>fs.readdirSync\<close> lists them, something that is neither (a socket, a
  device), or nothing that can be examined (a dangling link), where \<^verbatim>\<open>statSync\<close> throws.
  The tree is finite: links that lead back into a directory above them are not modelled.
\<close>

datatype fsnode =
    File
  | Dir "(string \<times> fsnode) list"
  | Other
  | NoStat

text \<open>
  \<^verbatim>\<open>path.join(dirPath, filename)\<close> of the POSIX flavour of the \<^verbatim>\<open>path\<close> module: the
  arguments that are not empty are joined with a slash and the result is normalised.
  Normalising splits the path at its slashes, drops the segments that are empty or
  \<^verbatim>\<open>.\<close>, lets a segment \<^verbatim>\<open>..\<close> cancel the segment before it (or, with nothing to cancel,
  keeps it in a relative path and drops it in an absolute one), and joins the segments
  again, keeping a leading and a trailing slash.
\<close>

fun split_slash :: "string \<Rightarrow> string list" where
  "split_slash [] = [[]]"
| "split_slash (c # cs) =
     (if c = CHR ''/'' then [] # split_slash cs
      else (case split_slash cs of [] \<Rightarrow> [[c]] | s # ss \<Rightarrow> (c # s) # ss))"

fun normalizeString :: "bool \<Rightarrow> string list \<Rightarrow> string list \<Rightarrow> string list" where
  "normalizeString allowAboveRoot res [] = res"
| "normalizeString allowAboveRoot res (seg # segs) =
     (if seg = [] \<or> seg = ''.'' then normalizeString allowAboveRoot res segs
      else if seg = ''..'' then
        (if res \<noteq> [] \<and> last res \<noteq> ''..''
         then normalizeString allowAboveRoot (butlast res) segs
         else if allowAboveRoot then normalizeString allowAboveRoot (res @ [''..'']) segs
         else normalizeString allowAboveRoot res segs)
      else normalizeString allowAboveRoot (res @ [seg]) segs)"

fun join_slash :: "string list \<Rightarrow> string" where
  "join_slash [] = []"
| "join_slash [s] = s"
| "join_slash (s # ss) = s @ ''/'' @ join_slash ss"

definition path_normalize :: "string \<Rightarrow> string" where
  "path_normalize path =
     (if path = [] then ''.''
      else
        let isAbsolute = (hd path = CHR ''/'');
            trailingSeparator = (last path = CHR ''/'');
            res = join_slash (normalizeString (\<not> isAbsolute) [] (split_slash path))
        in if res = [] then (if isAbsolute then ''/'' else if trailingSeparator then ''./'' else ''.'')
           else (if isAbsolute then ''/'' else []) @ res @ (if trailingSeparator then ''/'' else []))"

definition path_join :: "string \<Rightarrow> string \<Rightarrow> string" where
  "path_join dirPath filename =
     (if dirPath = [] \<and> filename = [] then ''.''
      else path_normalize
        (if dirPath = [] then filename
         else if filename = [] then dirPath
         else dirPath @ ''/'' @ filename))"

text \<open>
  \<^verbatim>\<open>filenames.map(function(filename) {...})\<close> used as a loop over the entries: the body
  updates the array \<^verbatim>\<open>mdxFiles\<close>, and an exception in the body ends the loop.
\<close>

fun for_each :: "('a \<Rightarrow> 's \<Rightarrow> error + 's) \<Rightarrow> 'a list \<Rightarrow> 's \<Rightarrow> error + 's" where
  "for_each body [] s = Inr s"
| "for_each body (x # xs) s =
     (case body x s of Inl e \<Rightarrow> Inl e | Inr s' \<Rightarrow> for_each body xs s')"

lemma for_each_cong [fundef_cong]:
  "xs = ys \<Longrightarrow> s = t \<Longrightarrow> (\<And>x a. x \<in> set ys \<Longrightarrow> f x a = g x a)
     \<Longrightarrow> for_each f xs s = for_each g ys t"
proof (induction ys arbitrary: xs s t)
  case Nil
  then show ?case by simp
next
  case (Cons y ys)
  then show ?case by (auto split: sum.splits)
qed

text \<open>
  The inner function \<^verbatim>\<open>scan\<close> of \<^verbatim>\<open>scanDir\<close>. \<^verbatim>\<open>filenames.sort()\<close> orders the names of
  one directory by code units; the names of one directory are distinct, so sorting the
  entries by name visits them in the same order. The array \<^verbatim>\<open>mdxFiles\<close> that the
  closure pushes onto is passed in and returned.
\<close>

function scan :: "string \<Rightarrow> string \<Rightarrow> (string \<times> fsnode) list \<Rightarrow> string list \<Rightarrow> error + string list" where
  "scan extension dirPath entries mdxFiles =
     for_each
       (\<lambda>(filename, st) mdxFiles.
          let filePath = path_join dirPath filename in
          case st of
            NoStat \<Rightarrow> Inl StatError
          | File \<Rightarrow> Inr (if suffix extension filePath then mdxFiles @ [filePath] else mdxFiles)
          | Dir sub \<Rightarrow> scan extension filePath sub mdxFiles
          | Other \<Rightarrow> Inr mdxFiles)
       (sort_key fst entries) mdxFiles"
  by pat_completeness auto
termination
proof (relation "measure (\<lambda>(extension, dirPath, entries, mdxFiles). size (Dir entries))")
  show "wf (measure (\<lambda>(extension, dirPath, entries, mdxFiles). size (Dir entries)))"
    by simp
next
  fix extension dirPath :: string and entries :: "(string \<times> fsnode) list"
    and mdxFiles a :: "string list" and x :: "string \<times> fsnode" and filename st xa sub
  assume "x \<in> set (sort_key fst entries)" "(filename, st) = x" "st = Dir sub"
  then have "(filename, Dir sub) \<in> set entries" by simp
  then have "size (Dir sub) < size (Dir entries)"
    by (induction entries) auto
  then show "((extension, xa, sub, a), (extension, dirPath, entries, mdxFiles))
      \<in> measure (\<lambda>(extension, dirPath, entries, mdxFiles). size (Dir entries))"
    by simp
qed

declare scan.simps [simp del]

definition scanDir :: "string \<Rightarrow> string \<Rightarrow> fsnode \<Rightarrow> error + string list" where
  "scanDir dirPath extension root =
     (case root of
        Dir entries \<Rightarrow> scan extension dirPath entries []
      | _ \<Rightarrow> Inl ReadDirError)"

subsection \<open>Dates\<close>

text \<open>
  A JavaScript \<^verbatim>\<open>Date\<close> holds a time value: a whole number of milliseconds since the epoch,
  or \<^verbatim>\<open>NaN\<close> (the "Invalid Date"). \<^verbatim>\<open>valueOf\<close> gives the number, \<open>None\<close> standing for
  \<^verbatim>\<open>NaN\<close>.
\<close>

datatype jsdate = TimeValue int | InvalidDate

fun valueOf :: "jsdate \<Rightarrow> int option" where
  "valueOf (TimeValue t) = Some t"
| "valueOf InvalidDate = None"

text \<open>\<^verbatim>\<open>a <= b\<close> on two dates compares their numbers; a comparison with \<^verbatim>\<open>NaN\<close> is false.\<close>

definition date_le :: "jsdate \<Rightarrow> jsdate \<Rightarrow> bool" where
  "date_le a b =
     (case valueOf a of
        None \<Rightarrow> False
      | Some x \<Rightarrow> (case valueOf b of None \<Rightarrow> False | Some y \<Rightarrow> x \<le> y))"

text \<open>\<^verbatim>\<open>a - b\<close> on two dates subtracts their numbers; \<^verbatim>\<open>NaN\<close> if either is \<^verbatim>\<open>NaN\<close>.\<close>

definition date_minus :: "jsdate \<Rightarrow> jsdate \<Rightarrow> int option" where
  "date_minus a b =
     (case valueOf a of
        None \<Rightarrow> None
      | Some x \<Rightarrow> (case valueOf b of None \<Rightarrow> None | Some y \<Rightarrow> Some (x - y)))"

text \<open>
  \<^verbatim>\<open>new Date(v)\<close> for \<open>v\<close> a string or \<^verbatim>\<open>undefined\<close> (\<open>None\<close>). The parser of date strings
  belongs to the platform and is the parameter \<open>parse\<close>, \<open>None\<close> for a string it cannot
  read. \<^verbatim>\<open>undefined\<close> converts to the number \<^verbatim>\<open>NaN\<close>. The constructor never throws.
\<close>

definition new_Date :: "(string \<Rightarrow> int option) \<Rightarrow> string option \<Rightarrow> jsdate" where
  "new_Date parse v =
     (case v of
        None \<Rightarrow> InvalidDate
      | Some s \<Rightarrow> (case parse s of None \<Rightarrow> InvalidDate | Some t \<Rightarrow> TimeValue t))"

subsection \<open>Compiled documents\<close>

text \<open>
  The export \<^verbatim>\<open>meta\<close> of a compiled document: an object whose fields \<^verbatim>\<open>title\<close>,
  \<^verbatim>\<open>description\<close> and \<^verbatim>\<open>date\<close> are strings when present. A field that is absent reads as
  \<^verbatim>\<open>undefined\<close> (\<open>None\<close>). A module without the export has \<^verbatim>\<open>meta\<close> \<^verbatim>\<open>undefined\<close>.
\<close>

record meta =
  meta_title :: "string option"
  meta_description :: "string option"
  meta_date :: "string option"

text \<open>
  A node of the document's syntax tree, with the four properties the script reads:
  \<^verbatim>\<open>type\<close>, \<^verbatim>\<open>depth\<close> (headings only), \<^verbatim>\<open>children\<close> (parents only) and \<^verbatim>\<open>value\<close>
  (literals only). A property a node does not have reads as \<^verbatim>\<open>undefined\<close>.
\<close>

datatype node =
  Node (node_type: string) (node_depth: "nat option")
       (node_children: "node list option") (node_value: "string option")

text \<open>
  What \<^verbatim>\<open>requireMDXSync\<close> returns: the module's \<^verbatim>\<open>meta\<close> export and the children
  of the root of the syntax tree.
\<close>

type_synonym compiled = "meta option \<times> node list"

text \<open>The regular files by path: the text of each. \<open>None\<close> where no file can be read.\<close>

type_synonym files = "string \<rightharpoonup> string"

text \<open>A string or \<^verbatim>\<open>undefined\<close> in a condition: only a non-empty string counts as true.\<close>

fun truthy :: "string option \<Rightarrow> bool" where
  "truthy None = False"
| "truthy (Some s) = (s \<noteq> [])"

text \<open>\<^verbatim>\<open>meta && meta.field\<close>\<close>

fun meta_and :: "meta option \<Rightarrow> (meta \<Rightarrow> string option) \<Rightarrow> string option" where
  "meta_and None field = None"
| "meta_and (Some m) field = field m"

text \<open>
  \<^verbatim>\<open>blocks[0].children[0].value\<close> on the filtered blocks: reading \<^verbatim>\<open>children\<close> of the
  missing first block, indexing missing \<^verbatim>\<open>children\<close>, and reading \<^verbatim>\<open>value\<close> of a
  missing first child each throw a \<^verbatim>\<open>TypeError\<close>. A first child without a \<^verbatim>\<open>value\<close>
  gives \<^verbatim>\<open>undefined\<close> and no exception.
\<close>

fun first_child_value :: "node list \<Rightarrow> error + string option" where
  "first_child_value [] = Inl TypeError"
| "first_child_value (b # bs) =
     (case node_children b of
        None \<Rightarrow> Inl TypeError
      | Some [] \<Rightarrow> Inl TypeError
      | Some (c # cs) \<Rightarrow> Inr (node_value c))"

definition is_h1 :: "node \<Rightarrow> bool" where
  "is_h1 x = (node_type x = ''heading'' \<and> node_depth x = Some 1)"

definition is_paragraph :: "node \<Rightarrow> bool" where
  "is_paragraph x = (node_type x = ''paragraph'')"

definition resolve_title :: "meta option \<Rightarrow> node list \<Rightarrow> error + string option" where
  "resolve_title m ast =
     (if truthy (meta_and m meta_title) then Inr (meta_and m meta_title)
      else first_child_value (filter is_h1 ast))"

definition resolve_description :: "meta option \<Rightarrow> node list \<Rightarrow> error + string option" where
  "resolve_description m ast =
     (if truthy (meta_and m meta_description) then Inr (meta_and m meta_description)
      else first_child_value (filter is_paragraph ast))"

text \<open>
  \<^verbatim>\<open>(meta && new Date(meta.date)) || new Date()\<close>: a \<^verbatim>\<open>Date\<close> object is true in a
  condition whatever its time value, so the clock is read only when \<^verbatim>\<open>meta\<close> is
  \<^verbatim>\<open>undefined\<close>. \<open>clock\<close> is what the clock shows at that moment.
\<close>

fun resolve_date :: "(string \<Rightarrow> int option) \<Rightarrow> int \<Rightarrow> meta option \<Rightarrow> jsdate" where
  "resolve_date parse clock None = TimeValue clock"
| "resolve_date parse clock (Some m) = new_Date parse (meta_date m)"

subsection \<open>Post records\<close>

record post =
  filePath :: string
  urlPath :: string
  title :: "string option"
  date :: jsdate
  description :: "string option"

subsection \<open>The platform\<close>

text \<open>
  The value \<^verbatim>\<open>JSON.stringify\<close> prints. Before printing it replaces a \<^verbatim>\<open>Date\<close> by the
  result of its \<^verbatim>\<open>toJSON\<close> method and leaves out a property whose value is \<^verbatim>\<open>undefined\<close>.
\<close>

datatype json = JNull | JString string | JArray "json list" | JObject "(string \<times> json) list"

text \<open>
  The functions the script calls and does not define. \<^verbatim>\<open>requireMDXSync(mdxSrc, filename)\<close>
  is nothing but calls into MDX, Babel and the module loader; evaluating the compiled
  module loads what the document imports, so the result may depend on the files, which
  are its first argument here. The others are the date parser inside
  \<^verbatim>\<open>new Date(string)\<close>, \<^verbatim>\<open>Date.prototype.toISOString\<close>, the printer
  \<^verbatim>\<open>JSON.stringify(value, null, 2)\<close>, and \<^verbatim>\<open>Rss.draw\<close> of the compiled module
  \<^verbatim>\<open>lib/es6/src/GenRss.bs.js\<close>, which the specification describes as determined by the
  posts.
\<close>

record platform =
  requireMDXSync :: "files \<Rightarrow> string \<Rightarrow> string \<Rightarrow> error + compiled"
  Date_parse :: "string \<Rightarrow> int option"
  Date_toISOString :: "int \<Rightarrow> string"
  JSON_stringify :: "json \<Rightarrow> string"
  Rss_draw :: "post list \<Rightarrow> string"

text \<open>\<^verbatim>\<open>fs.readFileSync(path, {encoding : 'utf-8'})\<close>\<close>

definition readFileSync :: "files \<Rightarrow> string \<Rightarrow> error + string" where
  "readFileSync files path =
     (case files path of None \<Rightarrow> Inl ReadFileError | Some mdxSrc \<Rightarrow> Inr mdxSrc)"

text \<open>\<^verbatim>\<open>requireMDXFileSync(path)\<close>\<close>

definition requireMDXFileSync :: "platform \<Rightarrow> files \<Rightarrow> string \<Rightarrow> error + compiled" where
  "requireMDXFileSync pf files path =
     (case readFileSync files path of
        Inl e \<Rightarrow> Inl e
      | Inr mdxSrc \<Rightarrow> requireMDXSync pf files mdxSrc path)"

text \<open>
  \<^verbatim>\<open>readPostMetadata(postPath)\<close>; \<open>clock\<close> is the reading of the clock during this call.
\<close>

definition readPostMetadata :: "platform \<Rightarrow> files \<Rightarrow> int \<Rightarrow> string \<Rightarrow> error + post" where
  "readPostMetadata pf files clock postPath =
     (case requireMDXFileSync pf files postPath of
        Inl e \<Rightarrow> Inl e
      | Inr (m, ast) \<Rightarrow>
          (case resolve_title m ast of
             Inl e \<Rightarrow> Inl e
           | Inr t \<Rightarrow>
               (case resolve_description m ast of
                  Inl e \<Rightarrow> Inl e
                | Inr d \<Rightarrow>
                    Inr \<lparr>filePath = postPath,
                         urlPath = urlPath_of postPath,
                         title = t,
                         date = resolve_date (Date_parse pf) clock m,
                         description = d\<rparr>)))"

subsection \<open>Sorting\<close>

text \<open>
  \<^verbatim>\<open>Array.prototype.sort(comparefn)\<close>: a stable sort; a comparison whose result is
  \<^verbatim>\<open>NaN\<close> (\<open>None\<close>) counts as \<open>0\<close>. An element goes before the first one it does not
  compare greater than, so of two elements that compare equal the earlier stays first.
  Where the comparison orders the elements consistently, as it does on posts whose dates
  are all time values, every stable sort returns this list.
\<close>

definition sort_compare :: "('a \<Rightarrow> 'a \<Rightarrow> int option) \<Rightarrow> 'a \<Rightarrow> 'a \<Rightarrow> int" where
  "sort_compare comparefn x y = (case comparefn x y of None \<Rightarrow> 0 | Some v \<Rightarrow> v)"

fun sort_insert :: "('a \<Rightarrow> 'a \<Rightarrow> int option) \<Rightarrow> 'a \<Rightarrow> 'a list \<Rightarrow> 'a list" where
  "sort_insert comparefn x [] = [x]"
| "sort_insert comparefn x (y # ys) =
     (if sort_compare comparefn x y \<le> 0 then x # y # ys
      else y # sort_insert comparefn x ys)"

definition array_sort :: "('a \<Rightarrow> 'a \<Rightarrow> int option) \<Rightarrow> 'a list \<Rightarrow> 'a list" where
  "array_sort comparefn xs = foldr (sort_insert comparefn) xs []"

subsection \<open>The main function\<close>

text \<open>\<^verbatim>\<open>postPaths.map(readPostMetadata)\<close>: the first exception ends the run.\<close>

fun array_map :: "('a \<Rightarrow> error + 'b) \<Rightarrow> 'a list \<Rightarrow> error + 'b list" where
  "array_map f [] = Inr []"
| "array_map f (x # xs) =
     (case f x of
        Inl e \<Rightarrow> Inl e
      | Inr y \<Rightarrow> (case array_map f xs of Inl e \<Rightarrow> Inl e | Inr ys \<Rightarrow> Inr (y # ys)))"

text \<open>
  \<^verbatim>\<open>.filter(function(post){return post.date <= now})\<close> and then
  \<^verbatim>\<open>posts.sort(function(a, b){return b.date - a.date})\<close>. \<open>now\<close> is the reading of the
  clock at \<^verbatim>\<open>const now = new Date()\<close>.
\<close>

definition by_date_desc :: "post \<Rightarrow> post \<Rightarrow> int option" where
  "by_date_desc a b = date_minus (date b) (date a)"

definition not_after :: "int \<Rightarrow> post \<Rightarrow> bool" where
  "not_after now post = date_le (date post) (TimeValue now)"

definition select_posts :: "int \<Rightarrow> post list \<Rightarrow> post list" where
  "select_posts now all_posts = array_sort by_date_desc (filter (not_after now) all_posts)"

text \<open>
  The posts as \<^verbatim>\<open>JSON.stringify\<close> sees them: the fields in the order the record literal
  lists them, the date as its ISO string (\<^verbatim>\<open>null\<close> for an invalid date), a title or
  description that is \<^verbatim>\<open>undefined\<close> left out.
\<close>

definition optional_property :: "string \<Rightarrow> string option \<Rightarrow> (string \<times> json) list" where
  "optional_property k v = (case v of None \<Rightarrow> [] | Some s \<Rightarrow> [(k, JString s)])"

definition date_toJSON :: "platform \<Rightarrow> jsdate \<Rightarrow> json" where
  "date_toJSON pf d =
     (case d of TimeValue t \<Rightarrow> JString (Date_toISOString pf t) | InvalidDate \<Rightarrow> JNull)"

definition post_toJSON :: "platform \<Rightarrow> post \<Rightarrow> json" where
  "post_toJSON pf p =
     JObject
       ([(''filePath'', JString (filePath p)), (''urlPath'', JString (urlPath p))]
        @ optional_property ''title'' (title p)
        @ [(''date'', date_toJSON pf (date p))]
        @ optional_property ''description'' (description p))"

definition posts_toJSON :: "platform \<Rightarrow> post list \<Rightarrow> json" where
  "posts_toJSON pf posts = JArray (map (post_toJSON pf) posts)"

definition newline :: char where
  "newline = CHR 0x0A"

definition listing_source :: "platform \<Rightarrow> post list \<Rightarrow> string" where
  "listing_source pf posts =
     ''// automatically generated by build_post_index.js'' @ [newline]
     @ ''export default '' @ JSON_stringify pf (posts_toJSON pf posts) @ '';'' @ [newline]"

definition exportPath :: string where
  "exportPath = ''pages/posts/index.gen.js''"

definition rssPath :: string where
  "rssPath = ''public/static/blog-rss.xml''"

text \<open>
  The posts that \<^verbatim>\<open>main\<close> publishes. \<open>files\<close> are the files when the run starts,
  \<open>root\<close> is what the file system holds at \<^verbatim>\<open>pages/posts\<close>, \<open>now\<close> the clock reading at
  \<^verbatim>\<open>const now = new Date()\<close>, and \<open>clock_at path\<close> the clock reading while the document
  at \<open>path\<close> is being extracted, which happens after \<open>now\<close> was taken.
\<close>

definition main_posts ::
  "platform \<Rightarrow> files \<Rightarrow> fsnode \<Rightarrow> int \<Rightarrow> (string \<Rightarrow> int) \<Rightarrow> error + post list" where
  "main_posts pf files root now clock_at =
     (case scanDir ''pages/posts'' ''.mdx'' root of
        Inl e \<Rightarrow> Inl e
      | Inr postPaths \<Rightarrow>
          (case array_map (\<lambda>postPath. readPostMetadata pf files (clock_at postPath) postPath)
                  postPaths of
             Inl e \<Rightarrow> Inl e
           | Inr all_posts \<Rightarrow> Inr (select_posts now all_posts)))"

text \<open>
  \<^verbatim>\<open>fs.writeFileSync(path, data)\<close> replaces the contents at a path, or throws when the file
  cannot be opened for writing (\<open>writable path\<close> is false: a missing directory, a
  refused permission) and then leaves the files as they are.
\<close>

definition writeFileSync :: "(string \<Rightarrow> bool) \<Rightarrow> string \<Rightarrow> string \<Rightarrow> files \<Rightarrow> error + files" where
  "writeFileSync writable path data files =
     (if writable path then Inr (files(path \<mapsto> data)) else Inl WriteError)"

text \<open>
  \<^verbatim>\<open>main()\<close>. The result is the exception that ended the run, if any, and the files as
  the run leaves them: an exception at the second write leaves the listing written.
\<close>

definition main ::
  "platform \<Rightarrow> fsnode \<Rightarrow> int \<Rightarrow> (string \<Rightarrow> int) \<Rightarrow> (string \<Rightarrow> bool) \<Rightarrow> files
     \<Rightarrow> error option \<times> files" where
  "main pf root now clock_at writable files =
     (case main_posts pf files root now clock_at of
        Inl e \<Rightarrow> (Some e, files)
      | Inr posts \<Rightarrow>
          (case writeFileSync writable exportPath (listing_source pf posts) files of
             Inl e \<Rightarrow> (Some e, files)
           | Inr listed \<Rightarrow>
               (case writeFileSync writable rssPath (Rss_draw pf posts) listed of
                  Inl e \<Rightarrow> (Some e, listed)
                | Inr written \<Rightarrow> (None, written))))"

subsection \<open>Reading the listing back\<close>

text \<open>
  The values a field of a post record, or a property of an object read back from JSON,
  can have.
\<close>

datatype jsvalue = VUndefined | VNull | VString string | VDate jsdate | VStructured json

text \<open>\<^verbatim>\<open>post[k]\<close> on a record built by \<^verbatim>\<open>readPostMetadata\<close>.\<close>

definition optional_string :: "string option \<Rightarrow> jsvalue" where
  "optional_string v = (case v of None \<Rightarrow> VUndefined | Some s \<Rightarrow> VString s)"

definition post_field :: "post \<Rightarrow> string \<Rightarrow> jsvalue" where
  "post_field p k =
     (if k = ''filePath'' then VString (filePath p)
      else if k = ''urlPath'' then VString (urlPath p)
      else if k = ''title'' then optional_string (title p)
      else if k = ''date'' then VDate (date p)
      else if k = ''description'' then optional_string (description p)
      else VUndefined)"

text \<open>
  A JSON reader gives back the value that was printed: strings as strings, \<^verbatim>\<open>null\<close> as
  \<^verbatim>\<open>null\<close>, arrays and objects as such. \<open>parsed_field j k\<close> is \<^verbatim>\<open>j[k]\<close> on the object read
  back, and \<open>array_elements\<close> the elements of the array read back.
\<close>

definition json_value :: "json \<Rightarrow> jsvalue" where
  "json_value j = (case j of JNull \<Rightarrow> VNull | JString s \<Rightarrow> VString s | _ \<Rightarrow> VStructured j)"

definition parsed_field :: "json \<Rightarrow> string \<Rightarrow> jsvalue" where
  "parsed_field j k =
     (case j of
        JObject kvs \<Rightarrow> (case map_of kvs k of None \<Rightarrow> VUndefined | Some v \<Rightarrow> json_value v)
      | _ \<Rightarrow> VUndefined)"

definition array_elements :: "json \<Rightarrow> json list" where
  "array_elements j = (case j of JArray xs \<Rightarrow> xs | _ \<Rightarrow> [])"

text \<open>
  Reading the listing file as data: the text between \<^verbatim>\<open>export default\<close> and the closing
  semicolon is the array, read by a JSON reader \<open>parse_json\<close>.
\<close>

definition listing_prefix :: string where
  "listing_prefix =
     ''// automatically generated by build_post_index.js'' @ [newline] @ ''export default ''"

definition listing_suffix :: string where
  "listing_suffix = '';'' @ [newline]"

definition read_listing :: "(string \<Rightarrow> json option) \<Rightarrow> string \<Rightarrow> json option" where
  "read_listing parse_json text =
     (if prefix listing_prefix text \<and> suffix listing_suffix (drop (length listing_prefix) text)
      then parse_json (take (length text - length listing_prefix - length listing_suffix)
                         (drop (length listing_prefix) text))
      else None)"

subsection \<open>The scan in the words of the specification\<close>

text \<open>Every entry of the tree can be examined.\<close>

fun statable :: "fsnode \<Rightarrow> bool" where
  "statable NoStat = False"
| "statable (Dir entries) = list_all (\<lambda>entry. statable (snd entry)) entries"
| "statable File = True"
| "statable Other = True"

text \<open>
  The paths of the regular files of a directory that end with the extension: the
  entries of each directory in the order of their names, a subdirectory's files in
  place of the subdirectory.
\<close>

function depth_first :: "string \<Rightarrow> string \<Rightarrow> (string \<times> fsnode) list \<Rightarrow> string list" where
  "depth_first extension dirPath entries =
     concat (map (\<lambda>(filename, st).
                    case st of
                      File \<Rightarrow> (if suffix extension (path_join dirPath filename)
                               then [path_join dirPath filename] else [])
                    | Dir sub \<Rightarrow> depth_first extension (path_join dirPath filename) sub
                    | _ \<Rightarrow> [])
               (sort_key fst entries))"
  by pat_completeness auto
termination
proof (relation "measure (\<lambda>(extension, dirPath, entries). size (Dir entries))")
  show "wf (measure (\<lambda>(extension, dirPath, entries). size (Dir entries)))"
    by simp
next
  fix extension dirPath :: string and entries :: "(string \<times> fsnode) list"
    and x :: "string \<times> fsnode" and filename st sub
  assume "x \<in> set (sort_key fst entries)" "(filename, st) = x" "st = Dir sub"
  then have "(filename, Dir sub) \<in> set entries"
    by simp
  then have "size (Dir sub) < size (Dir entries)"
    by (induction entries) auto
  then show "((extension, path_join dirPath filename, sub), (extension, dirPath, entries))
      \<in> measure (\<lambda>(extension, dirPath, entries). size (Dir entries))"
    by simp
qed

declare depth_first.simps [simp del]


text \<open>\<open>file_at dirPath entries p\<close>: \<open>p\<close> is the path of a regular file below the directory.\<close>

inductive file_at :: "string \<Rightarrow> (string \<times> fsnode) list \<Rightarrow> string \<Rightarrow> bool" where
  here: "(filename, File) \<in> set entries \<Longrightarrow> file_at dirPath entries (path_join dirPath filename)"
| below: "(filename, Dir sub) \<in> set entries \<Longrightarrow> file_at (path_join dirPath filename) sub p
    \<Longrightarrow> file_at dirPath entries p"

subsection \<open>An example run\<close>

text \<open>
  A small site on which the functions are evaluated. Five documents are scanned: one
  without a \<^verbatim>\<open>meta\<close> export, one whose title comes from its heading, one with a date
  that does not parse, one with a \<^verbatim>\<open>meta\<close> that has no date; a sixth, outside the scanned
  directory, has neither a title nor a heading. The text of a document is abridged to a
  line from which the example compiler tells what the document holds. The printer lays
  a JSON value out as \<^verbatim>\<open>JSON.stringify(value, null, 2)\<close> does when no string needs an
  escape, the date functions know the three dates of the example, and the feed lists
  the url paths.
\<close>

definition quote :: "string \<Rightarrow> string" where
  "quote s = [CHR 0x22] @ s @ [CHR 0x22]"

fun join_lines :: "string list \<Rightarrow> string" where
  "join_lines [] = []"
| "join_lines [l] = l"
| "join_lines (l # ls) = l @ '','' @ [newline] @ join_lines ls"

primrec json_text :: "json \<Rightarrow> nat \<Rightarrow> string" where
  "json_text JNull n = ''null''"
| "json_text (JString s) n = quote s"
| "json_text (JArray xs) n =
     (if xs = [] then ''[]''
      else ''['' @ [newline]
           @ join_lines (map (\<lambda>f. replicate (n + 2) CHR '' '' @ f (n + 2)) (map json_text xs))
           @ [newline] @ replicate n CHR '' '' @ '']'')"
| "json_text (JObject kvs) n =
     (if kvs = [] then ''{}''
      else ''{'' @ [newline]
           @ join_lines (map (\<lambda>(k, f). replicate (n + 2) CHR '' '' @ quote k @ '': '' @ f (n + 2))
                           (map (map_prod id json_text) kvs))
           @ [newline] @ replicate n CHR '' '' @ ''}'')"

definition example_files :: files where
  "example_files =
     [''pages/posts/a.mdx'' \<mapsto> ''meta: A, About A, 2020-01-01T00:00:00.000Z'',
      ''pages/posts/b.mdx'' \<mapsto> ''# B, About B'',
      ''pages/posts/sub/c.mdx'' \<mapsto> ''meta: About C, 2020-06-01T00:00:00.000Z; ## Not this, # C'',
      ''pages/posts/sub/d.mdx'' \<mapsto> ''meta: D, About D, soon'',
      ''pages/posts/sub/e.mdx'' \<mapsto> ''meta: E, About E'',
      ''pages/drafts/g.mdx'' \<mapsto> ''About G'',
      ''pages/posts/index.gen.js'' \<mapsto> ''// an older listing'']"

definition example_documents :: "string \<Rightarrow> error + compiled" where
  "example_documents mdxSrc =
     (if mdxSrc = ''meta: A, About A, 2020-01-01T00:00:00.000Z'' then
        Inr (Some \<lparr>meta_title = Some ''A'', meta_description = Some ''About A'',
                   meta_date = Some ''2020-01-01T00:00:00.000Z''\<rparr>, [])
      else if mdxSrc = ''# B, About B'' then
        Inr (None,
             [Node ''heading'' (Some 1) (Some [Node ''text'' None None (Some ''B'')]) None,
              Node ''paragraph'' None (Some [Node ''text'' None None (Some ''About B'')]) None])
      else if mdxSrc = ''meta: About C, 2020-06-01T00:00:00.000Z; ## Not this, # C'' then
        Inr (Some \<lparr>meta_title = None, meta_description = Some ''About C'',
                   meta_date = Some ''2020-06-01T00:00:00.000Z''\<rparr>,
             [Node ''heading'' (Some 2) (Some [Node ''text'' None None (Some ''Not this'')]) None,
              Node ''heading'' (Some 1) (Some [Node ''text'' None None (Some ''C'')]) None])
      else if mdxSrc = ''meta: D, About D, soon'' then
        Inr (Some \<lparr>meta_title = Some ''D'', meta_description = Some ''About D'',
                   meta_date = Some ''soon''\<rparr>, [])
      else if mdxSrc = ''meta: E, About E'' then
        Inr (Some \<lparr>meta_title = Some ''E'', meta_description = Some ''About E'',
                   meta_date = None\<rparr>, [])
      else if mdxSrc = ''About G'' then
        Inr (None, [Node ''paragraph'' None (Some [Node ''text'' None None (Some ''About G'')]) None])
      else Inl CompileError)"



definition example_parse :: "string \<Rightarrow> int option" where
  "example_parse s =
     (if s = ''2020-01-01T00:00:00.000Z'' then Some 1577836800000
      else if s = ''2020-06-01T00:00:00.000Z'' then Some 1590969600000
      else None)"

definition example_toISOString :: "int \<Rightarrow> string" where
  "example_toISOString t =
     (if t = 1577836800000 then ''2020-01-01T00:00:00.000Z''
      else if t = 1590969600000 then ''2020-06-01T00:00:00.000Z''
      else if t = 1593561600000 then ''2020-07-01T00:00:00.000Z''
      else [])"

definition example_draw :: "post list \<Rightarrow> string" where
  "example_draw posts = concat (map (\<lambda>p. ''<item>'' @ urlPath p @ ''</item>'') posts)"

definition example_platform :: platform where
  "example_platform =
     \<lparr>requireMDXSync = (\<lambda>files mdxSrc filename. example_documents mdxSrc),
      Date_parse = example_parse,
      Date_toISOString = example_toISOString, JSON_stringify = (\<lambda>j. json_text j 0),
      Rss_draw = example_draw\<rparr>"

definition example_entries :: "(string \<times> fsnode) list" where
  "example_entries =
     [(''sub'', Dir [(''e.mdx'', File), (''d.mdx'', File), (''c.mdx'', File), (''c.MDX'', File)]),
      (''b.mdx'', File), (''index.gen.js'', File), (''a.mdx'', File), (''x.mdx'', Other)]"

definition example_root :: fsnode where
  "example_root = Dir example_entries"

definition example_post :: "string \<Rightarrow> jsdate \<Rightarrow> post" where
  "example_post path d =
     \<lparr>filePath = path, urlPath = urlPath_of path, title = Some ''T'', date = d,
      description = Some ''D''\<rparr>"

definition example_posts :: "post list" where
  "example_posts =
     [example_post ''pages/posts/a.mdx'' (TimeValue 1),
      example_post ''pages/posts/b.mdx'' (TimeValue 3),
      example_post ''pages/posts/c.mdx'' (TimeValue 5),
      example_post ''pages/posts/d.mdx'' InvalidDate,
      example_post ''pages/posts/e.mdx'' (TimeValue 3),
      example_post ''pages/posts/f.mdx'' (TimeValue 6)]"

text \<open>The two posts of the example site dated before July 2020.\<close>

definition example_published :: "post list" where
  "example_published =
     [\<lparr>filePath = ''pages/posts/sub/c.mdx'', urlPath = ''/posts/sub/c'', title = Some ''C'',
       date = TimeValue 1590969600000, description = Some ''About C''\<rparr>,
      \<lparr>filePath = ''pages/posts/a.mdx'', urlPath = ''/posts/a'', title = Some ''A'',
       date = TimeValue 1577836800000, description = Some ''About A''\<rparr>]"

text \<open>
  The post of the document without \<^verbatim>\<open>meta\<close>, extracted while the clock still shows the
  reading \<open>now\<close> of July 2020, and the files a run writes when it publishes \<open>posts\<close>.
\<close>

definition example_undated :: post where
  "example_undated =
     \<lparr>filePath = ''pages/posts/b.mdx'', urlPath = ''/posts/b'', title = Some ''B'',
      date = TimeValue 1593561600000, description = Some ''About B''\<rparr>"

definition example_written :: "post list \<Rightarrow> files" where
  "example_written posts =
     example_files(exportPath \<mapsto> listing_source example_platform posts,
                   rssPath \<mapsto> Rss_draw example_platform posts)"

text \<open>
  A reader for the texts the example printer writes: \<^verbatim>\<open>null\<close>, strings without escapes,
  arrays and objects, with blanks and line breaks between the tokens. The first argument
  bounds the depth of the recursion; the length of the text is enough.
\<close>

definition skip_blanks :: "string \<Rightarrow> string" where
  "skip_blanks s = dropWhile (\<lambda>c. c = CHR '' '' \<or> c = newline) s"

fun read_string :: "string \<Rightarrow> (string \<times> string) option" where
  "read_string [] = None"
| "read_string (c # cs) =
     (if c = CHR 0x22 then Some ([], cs)
      else (case read_string cs of None \<Rightarrow> None | Some (s, rest) \<Rightarrow> Some (c # s, rest)))"

fun read_value :: "nat \<Rightarrow> string \<Rightarrow> (json \<times> string) option"
  and read_elements :: "nat \<Rightarrow> string \<Rightarrow> (json list \<times> string) option"
  and read_members :: "nat \<Rightarrow> string \<Rightarrow> ((string \<times> json) list \<times> string) option" where
  "read_value 0 s = None"
| "read_value (Suc n) s =
     (let t = skip_blanks s in
      if prefix ''null'' t then Some (JNull, drop 4 t)
      else if prefix [CHR 0x22] t then
        (case read_string (tl t) of None \<Rightarrow> None | Some (str, rest) \<Rightarrow> Some (JString str, rest))
      else if prefix ''['' t then
        (if prefix '']'' (skip_blanks (tl t)) then Some (JArray [], tl (skip_blanks (tl t)))
         else (case read_elements n (tl t) of
                 None \<Rightarrow> None
               | Some (vs, rest) \<Rightarrow> Some (JArray vs, rest)))
      else if prefix ''{'' t then
        (if prefix ''}'' (skip_blanks (tl t)) then Some (JObject [], tl (skip_blanks (tl t)))
         else (case read_members n (tl t) of
                 None \<Rightarrow> None
               | Some (kvs, rest) \<Rightarrow> Some (JObject kvs, rest)))
      else None)"
| "read_elements 0 s = None"
| "read_elements (Suc n) s =
     (case read_value n s of
        None \<Rightarrow> None
      | Some (v, rest) \<Rightarrow>
          (let t = skip_blanks rest in
           if prefix '','' t then
             (case read_elements n (tl t) of
                None \<Rightarrow> None
              | Some (vs, rest') \<Rightarrow> Some (v # vs, rest'))
           else if prefix '']'' t then Some ([v], tl t)
           else None))"
| "read_members 0 s = None"
| "read_members (Suc n) s =
     (let t = skip_blanks s in
      if prefix [CHR 0x22] t then
        (case read_string (tl t) of
           None \<Rightarrow> None
         | Some (k, rest) \<Rightarrow>
             (let u = skip_blanks rest in
              if prefix '':'' u then
                (case read_value n (tl u) of
                   None \<Rightarrow> None
                 | Some (v, rest') \<Rightarrow>
                     (let w = skip_blanks rest' in
                      if prefix '','' w then
                        (case read_members n (tl w) of
                           None \<Rightarrow> None
                         | Some (kvs, rest'') \<Rightarrow> Some ((k, v) # kvs, rest''))
                      else if prefix ''}'' w then Some ([(k, v)], tl w)
                      else None))
              else None))
      else None)"

definition json_read :: "string \<Rightarrow> json option" where
  "json_read s =
     (case read_value (length s) s of
        None \<Rightarrow> None
      | Some (v, rest) \<Rightarrow> if skip_blanks rest = [] then Some v else None)"

subsection \<open>Auxiliary notions\<close>


text \<open>
  Two extractions of one path agree for what \<^verbatim>\<open>main\<close> keeps of them: they are equal, or
  both return records that the filter drops.
\<close>

definition agree_for :: "int \<Rightarrow> error + post \<Rightarrow> error + post \<Rightarrow> bool" where
  "agree_for now r r' =
     (r = r' \<or> (\<exists>p p'. r = Inr p \<and> r' = Inr p' \<and> \<not> not_after now p \<and> \<not> not_after now p'))"

section \<open>Properties\<close>

subsection \<open>The url path\<close>

lemma replace_first_takeWhile:
  "replace_first a b s =
     (if a \<in> set s then takeWhile (\<lambda>c. c \<noteq> a) s @ b # tl (dropWhile (\<lambda>c. c \<noteq> a) s) else s)"
  by (induction s) auto

lemma strip_mdx_append_md: "strip_mdx (xs @ ''.md'') = xs"
  by (induction xs) (auto simp: Cons_eq_append_conv)

lemma strip_mdx_append_mdx: "strip_mdx (xs @ ''.mdx'') = xs"
  by (induction xs) (auto simp: Cons_eq_append_conv)

lemma strip_mdx_id: "\<not> suffix ''.md'' s \<Longrightarrow> \<not> suffix ''.mdx'' s \<Longrightarrow> strip_mdx s = s"
  by (induction s) (auto simp: suffix_Cons)

lemma strip_mdx_drop_extension: "strip_mdx s = drop_extension s"
proof (cases "suffix ''.mdx'' s")
  case True
  then obtain xs where "s = xs @ ''.mdx''"
    by (auto simp: suffix_def)
  then show ?thesis
    by (simp add: drop_extension_def strip_mdx_append_mdx suffix_def del: strip_mdx.simps)
next
  case no_mdx: False
  show ?thesis
  proof (cases "suffix ''.md'' s")
    case True
    then obtain xs where "s = xs @ ''.md''"
      by (auto simp: suffix_def)
    with no_mdx True show ?thesis
      by (simp add: drop_extension_def strip_mdx_append_md del: strip_mdx.simps)
  next
    case False
    with no_mdx show ?thesis
      by (simp add: drop_extension_def strip_mdx_id)
  qed
qed

lemma replace_first_append:
  "a \<notin> set xs \<Longrightarrow> replace_first a b (xs @ a # ys) = xs @ b # ys"
  by (induction xs) auto

lemma first_backslash_only:
  "backslash \<notin> set a \<Longrightarrow> first_backslash_to_slash (a @ backslash # b) = a @ CHR ''/'' # b"
  using replace_first_append [of backslash a "CHR ''/''" b]
    replace_first_takeWhile [of backslash "CHR ''/''" "a @ backslash # b"]
  by (simp add: first_backslash_to_slash_def)

text \<open>
  Claim C5. The url path is a function of the path string alone. It is the path with its
  first backslash (and no later one) turned into a forward slash, then without a leading
  \<^verbatim>\<open>pages\<close>, then without a trailing \<^verbatim>\<open>.mdx\<close> or \<^verbatim>\<open>.md\<close>; and
  \<^verbatim>\<open>pages/posts/a/b.mdx\<close> becomes \<^verbatim>\<open>/posts/a/b\<close>.
\<close>

theorem urlPath_of_transform:
  "urlPath_of p = urlPath_spec p \<and>
   (backslash \<notin> set a \<longrightarrow> first_backslash_to_slash (a @ backslash # b) = a @ CHR ''/'' # b) \<and>
   (backslash \<notin> set p \<longrightarrow> first_backslash_to_slash p = p) \<and>
   urlPath_of ''pages/posts/a/b.mdx'' = ''/posts/a/b''"
proof (intro conjI impI)
  show "urlPath_of p = urlPath_spec p"
    by (simp add: urlPath_of_def urlPath_spec_def strip_mdx_drop_extension
        replace_first_takeWhile first_backslash_to_slash_def)
  show "first_backslash_to_slash (a @ backslash # b) = a @ CHR ''/'' # b" if "backslash \<notin> set a"
    using that by (rule first_backslash_only)
  show "first_backslash_to_slash p = p" if "backslash \<notin> set p"
    using that by (simp add: first_backslash_to_slash_def)
  show "urlPath_of ''pages/posts/a/b.mdx'' = ''/posts/a/b''"
    by (simp add: urlPath_of_def strip_pages_def backslash_def)
qed

theorem urlPath_of_transform_witness:
  "urlPath_of (''pages'' @ backslash # ''posts'' @ backslash # ''a.md'')
     = urlPath_spec (''pages'' @ backslash # ''posts'' @ backslash # ''a.md'') \<and>
   first_backslash_to_slash (''pages'' @ backslash # ''posts'' @ backslash # ''a.md'')
     = ''pages/posts'' @ backslash # ''a.md'' \<and>
   first_backslash_to_slash ''pages/posts/a/b.mdx'' = ''pages/posts/a/b.mdx'' \<and>
   urlPath_of (''pages'' @ backslash # ''posts'' @ backslash # ''a.md'') = ''/posts'' @ backslash # ''a''"
proof -
  have fresh: "backslash \<notin> set ''pages''" "backslash \<notin> set ''pages/posts/a/b.mdx''"
    by (simp_all add: backslash_def)
  have "urlPath_of (''pages'' @ backslash # ''posts'' @ backslash # ''a.md'')
      = ''/posts'' @ backslash # ''a''"
    by (simp add: urlPath_of_def strip_pages_def backslash_def)
  with fresh
    urlPath_of_transform [of "''pages'' @ backslash # ''posts'' @ backslash # ''a.md''"
      "''pages''" "''posts'' @ backslash # ''a.md''"]
    urlPath_of_transform [of "''pages/posts/a/b.mdx''" "''pages''" "[]"]
  show ?thesis by simp
qed

subsection \<open>Filtering and sorting the posts\<close>

lemma not_after_iff: "not_after now p \<longleftrightarrow> (\<exists>t. date p = TimeValue t \<and> t \<le> now)"
  by (cases "date p") (auto simp: not_after_def date_le_def)


lemma set_sort_insert [simp]: "set (sort_insert c x ys) = insert x (set ys)"
  by (induction ys) auto

lemma mset_sort_insert [simp]: "mset (sort_insert c x ys) = add_mset x (mset ys)"
  by (induction ys) auto

lemma mset_array_sort [simp]: "mset (array_sort c xs) = mset xs"
  by (induction xs) (auto simp: array_sort_def)

lemma set_array_sort [simp]: "set (array_sort c xs) = set xs"
  by (induction xs) (auto simp: array_sort_def)


lemma array_sort_Nil [simp]: "array_sort c [] = []"
  by (simp add: array_sort_def)










lemma select_example:
  "select_posts 5 example_posts =
     [example_post ''pages/posts/c.mdx'' (TimeValue 5),
      example_post ''pages/posts/b.mdx'' (TimeValue 3),
      example_post ''pages/posts/e.mdx'' (TimeValue 3),
      example_post ''pages/posts/a.mdx'' (TimeValue 1)]"
  by (simp add: select_posts_def example_posts_def example_post_def not_after_def date_le_def
      array_sort_def sort_compare_def by_date_desc_def date_minus_def)


subsection \<open>What is published\<close>

lemma main_completes:
  "main pf root now clock_at writable files = (None, files') \<longleftrightarrow>
     writable exportPath \<and> writable rssPath \<and>
     (\<exists>posts. main_posts pf files root now clock_at = Inr posts \<and>
        files' = files(exportPath \<mapsto> listing_source pf posts, rssPath \<mapsto> Rss_draw pf posts))"
  by (auto simp: main_def writeFileSync_def split: sum.splits)

lemma main_throws:
  "main pf root now clock_at writable files = (Some e, files') \<longleftrightarrow>
     main_posts pf files root now clock_at = Inl e \<and> files' = files \<or>
     (\<exists>posts. main_posts pf files root now clock_at = Inr posts \<and> e = WriteError \<and>
        (\<not> writable exportPath \<and> files' = files \<or>
         writable exportPath \<and> \<not> writable rssPath \<and>
           files' = files(exportPath \<mapsto> listing_source pf posts)))"
  by (auto simp: main_def writeFileSync_def split: sum.splits)

lemma main_posts_Inr:
  "main_posts pf files root now clock_at = Inr posts \<longleftrightarrow>
     (\<exists>postPaths all_posts. scanDir ''pages/posts'' ''.mdx'' root = Inr postPaths \<and>
        array_map (\<lambda>postPath. readPostMetadata pf files (clock_at postPath) postPath) postPaths = Inr all_posts \<and>
        posts = select_posts now all_posts)"
  by (auto simp: main_posts_def split: sum.splits)

lemma set_select_posts: "set (select_posts now posts) = {p \<in> set posts. not_after now p}"
  by (auto simp: select_posts_def)

lemma main_posts_not_after:
  "main_posts pf files root now clock_at = Inr published \<Longrightarrow>
   \<forall>q\<in>set published. \<exists>t. date q = TimeValue t \<and> t \<le> now"
  by (auto simp: main_posts_Inr set_select_posts not_after_iff)

lemma paths_distinct: "exportPath \<noteq> rssPath"
  by (simp add: exportPath_def rssPath_def)

lemma example_main_posts:
  "main_posts example_platform example_files example_root 1593561600000 (\<lambda>path. 1593561600001) = Inr example_published"
  by code_simp

lemma example_main:
  "main example_platform example_root 1593561600000 (\<lambda>path. 1593561600001) (\<lambda>path. True)
     example_files = (None, example_written example_published)"
  by (simp add: main_def example_main_posts writeFileSync_def example_written_def)

lemma example_main_feed_fails:
  "main example_platform example_root 1593561600000 (\<lambda>path. 1593561600001)
     (\<lambda>path. path \<noteq> rssPath) example_files
     = (Some WriteError,
        example_files(exportPath \<mapsto> listing_source example_platform example_published))"
  using paths_distinct by (simp add: main_def example_main_posts writeFileSync_def)

text \<open>
  Claim C2. The published posts are exactly the input records (with multiplicity) whose
  date is a time value less than or equal to \<open>now\<close>; a record dated exactly \<open>now\<close> is
  published; no published record is dated after \<open>now\<close>; and both files that \<^verbatim>\<open>main\<close>
  writes are made from one list of posts, none of them dated after \<open>now\<close>: when the run
  completes both files hold renderings of that list, and when it throws the files are
  as they were or the listing alone has been written from such a list.
\<close>

theorem select_posts_not_after:
  "mset (select_posts now posts)
     = filter_mset (\<lambda>p. \<exists>t. date p = TimeValue t \<and> t \<le> now) (mset posts) \<and>
   (p \<in> set posts \<and> date p = TimeValue now \<longrightarrow> p \<in> set (select_posts now posts)) \<and>
   (\<forall>q t. q \<in> set (select_posts now posts) \<and> date q = TimeValue t \<longrightarrow> \<not> now < t) \<and>
   (main pf root now clock_at writable files = (None, files') \<longrightarrow>
      (\<exists>published. files' exportPath = Some (listing_source pf published) \<and>
         files' rssPath = Some (Rss_draw pf published) \<and>
         (\<forall>q\<in>set published. \<exists>t. date q = TimeValue t \<and> t \<le> now))) \<and>
   (main pf root now clock_at writable files = (Some e, files') \<longrightarrow>
      files' = files \<or>
      (\<exists>published. files' = files(exportPath \<mapsto> listing_source pf published) \<and>
         (\<forall>q\<in>set published. \<exists>t. date q = TimeValue t \<and> t \<le> now)))"
proof (intro conjI)
  show "mset (select_posts now posts)
     = filter_mset (\<lambda>p. \<exists>t. date p = TimeValue t \<and> t \<le> now) (mset posts)"
    by (simp add: select_posts_def not_after_iff [abs_def])
  show "p \<in> set posts \<and> date p = TimeValue now \<longrightarrow> p \<in> set (select_posts now posts)"
    by (simp add: set_select_posts not_after_iff)
  show "\<forall>q t. q \<in> set (select_posts now posts) \<and> date q = TimeValue t \<longrightarrow> \<not> now < t"
    by (auto simp: set_select_posts not_after_iff)
  show "main pf root now clock_at writable files = (None, files') \<longrightarrow>
      (\<exists>published. files' exportPath = Some (listing_source pf published) \<and>
         files' rssPath = Some (Rss_draw pf published) \<and>
         (\<forall>q\<in>set published. \<exists>t. date q = TimeValue t \<and> t \<le> now))"
  proof
    assume "main pf root now clock_at writable files = (None, files')"
    then obtain published where p: "main_posts pf files root now clock_at = Inr published"
      and f: "files' = files(exportPath \<mapsto> listing_source pf published, rssPath \<mapsto> Rss_draw pf published)"
      by (auto simp: main_completes)
    from p have "\<forall>q\<in>set published. \<exists>t. date q = TimeValue t \<and> t \<le> now"
      by (rule main_posts_not_after)
    with f paths_distinct show "\<exists>published. files' exportPath = Some (listing_source pf published) \<and>
         files' rssPath = Some (Rss_draw pf published) \<and>
         (\<forall>q\<in>set published. \<exists>t. date q = TimeValue t \<and> t \<le> now)"
      by auto
  qed
  show "main pf root now clock_at writable files = (Some e, files') \<longrightarrow>
      files' = files \<or>
      (\<exists>published. files' = files(exportPath \<mapsto> listing_source pf published) \<and>
         (\<forall>q\<in>set published. \<exists>t. date q = TimeValue t \<and> t \<le> now))"
    using main_posts_not_after [of pf files root now clock_at]
    by (auto simp: main_throws)
qed

theorem select_posts_not_after_witness:
  "mset (select_posts 5 example_posts)
     = filter_mset (\<lambda>p. \<exists>t. date p = TimeValue t \<and> t \<le> 5) (mset example_posts) \<and>
   example_post ''pages/posts/c.mdx'' (TimeValue 5) \<in> set (select_posts 5 example_posts) \<and>
   example_post ''pages/posts/f.mdx'' (TimeValue 6) \<notin> set (select_posts 5 example_posts) \<and>
   main example_platform example_root 1593561600000 (\<lambda>path. 1593561600001) (\<lambda>path. True)
     example_files = (None, example_written example_published) \<and>
   (\<exists>published.
      example_written example_published exportPath
        = Some (listing_source example_platform published) \<and>
      example_written example_published rssPath = Some (Rss_draw example_platform published) \<and>
      (\<forall>q\<in>set published. \<exists>t. date q = TimeValue t \<and> t \<le> 1593561600000)) \<and>
   main example_platform example_root 1593561600000 (\<lambda>path. 1593561600001)
     (\<lambda>path. path \<noteq> rssPath) example_files
     = (Some WriteError,
        example_files(exportPath \<mapsto> listing_source example_platform example_published)) \<and>
   (\<exists>published.
      example_files(exportPath \<mapsto> listing_source example_platform example_published)
        = example_files(exportPath \<mapsto> listing_source example_platform published) \<and>
      (\<forall>q\<in>set published. \<exists>t. date q = TimeValue t \<and> t \<le> 1593561600000))"
proof -
  let ?p = "example_post ''pages/posts/c.mdx'' (TimeValue 5)"
  let ?q = "example_post ''pages/posts/f.mdx'' (TimeValue 6)"
  let ?listed = "example_files(exportPath \<mapsto> listing_source example_platform example_published)"
  note small = select_posts_not_after [where now = 5 and posts = example_posts and p = ?p]
  note run = select_posts_not_after [where now = 1593561600000 and pf = example_platform
      and root = example_root and clock_at = "\<lambda>path. 1593561600001"
      and writable = "\<lambda>path. True" and files = example_files
      and files' = "example_written example_published"]
  note failed = select_posts_not_after [where now = 1593561600000 and pf = example_platform
      and root = example_root and clock_at = "\<lambda>path. 1593561600001"
      and writable = "\<lambda>path. path \<noteq> rssPath" and files = example_files
      and files' = ?listed and e = WriteError]
  have in_posts: "?p \<in> set example_posts" "date ?p = TimeValue 5"
    by (simp_all add: example_posts_def example_post_def)
  have "date ?q = TimeValue 6"
    by (simp add: example_post_def)
  with small have out: "?q \<notin> set (select_posts 5 example_posts)"
    by fastforce
  from run example_main have both: "\<exists>published.
      example_written example_published exportPath
        = Some (listing_source example_platform published) \<and>
      example_written example_published rssPath = Some (Rss_draw example_platform published) \<and>
      (\<forall>q\<in>set published. \<exists>t. date q = TimeValue t \<and> t \<le> 1593561600000)"
    by blast
  have changed: "?listed \<noteq> example_files"
  proof
    assume "?listed = example_files"
    then have "?listed exportPath = example_files exportPath"
      by (rule arg_cong)
    then show False
      by (simp add: example_files_def exportPath_def listing_source_def)
  qed
  with failed example_main_feed_fails have listing: "\<exists>published.
      ?listed = example_files(exportPath \<mapsto> listing_source example_platform published) \<and>
      (\<forall>q\<in>set published. \<exists>t. date q = TimeValue t \<and> t \<le> 1593561600000)"
    by blast
  from small in_posts out example_main both example_main_feed_fails listing show ?thesis
    by blast
qed

subsection \<open>Extraction\<close>






lemma first_child_value_error: "first_child_value bs = Inl e \<Longrightarrow> e = TypeError"
  by (cases bs) (auto split: option.splits list.splits)


lemma resolve_description_error: "resolve_description m ast = Inl e \<Longrightarrow> e = TypeError"
  by (auto simp: resolve_description_def split: if_splits dest: first_child_value_error)


lemma example_a: "requireMDXFileSync example_platform example_files ''pages/posts/a.mdx'' =
   Inr (Some \<lparr>meta_title = Some ''A'', meta_description = Some ''About A'',
                   meta_date = Some ''2020-01-01T00:00:00.000Z''\<rparr>, [])"
  by code_simp

lemma example_b: "requireMDXFileSync example_platform example_files ''pages/posts/b.mdx'' =
   Inr (None,
             [Node ''heading'' (Some 1) (Some [Node ''text'' None None (Some ''B'')]) None,
              Node ''paragraph'' None (Some [Node ''text'' None None (Some ''About B'')]) None])"
  by code_simp





subsection \<open>The date of a post\<close>

lemma array_map_Inr_set:
  "array_map f xs = Inr ys \<Longrightarrow> y \<in> set ys \<Longrightarrow> \<exists>x\<in>set xs. f x = Inr y"
  by (induction xs arbitrary: ys) (auto split: sum.splits)

lemma readPostMetadata_filePath: "readPostMetadata pf files clock postPath = Inr p \<Longrightarrow> filePath p = postPath"
  by (auto simp: readPostMetadata_def split: sum.splits)

lemma readPostMetadata_date:
  "requireMDXFileSync pf files postPath = Inr (m, ast) \<Longrightarrow> readPostMetadata pf files clock postPath = Inr p
    \<Longrightarrow> date p = resolve_date (Date_parse pf) clock m"
  by (auto simp: readPostMetadata_def split: sum.splits)

lemma main_posts_member:
  assumes "main_posts pf files root now clock_at = Inr posts" and "p \<in> set posts"
  shows "readPostMetadata pf files (clock_at (filePath p)) (filePath p) = Inr p \<and> not_after now p"
proof -
  from assms(1) obtain postPaths all_posts
    where am: "array_map (\<lambda>postPath. readPostMetadata pf files (clock_at postPath) postPath) postPaths = Inr all_posts"
      and sel: "posts = select_posts now all_posts"
    by (auto simp: main_posts_Inr)
  from sel assms(2) have p: "p \<in> set all_posts" "not_after now p"
    by (auto simp: set_select_posts)
  from array_map_Inr_set [OF am p(1)] obtain x where x: "readPostMetadata pf files (clock_at x) x = Inr p"
    by blast
  with readPostMetadata_filePath [OF x] p show ?thesis by simp
qed

lemma example_e: "requireMDXFileSync example_platform example_files ''pages/posts/sub/e.mdx'' =
   Inr (Some \<lparr>meta_title = Some ''E'', meta_description = Some ''About E'', meta_date = None\<rparr>, [])"
  by code_simp

lemma example_d: "requireMDXFileSync example_platform example_files ''pages/posts/sub/d.mdx'' =
   Inr (Some \<lparr>meta_title = Some ''D'', meta_description = Some ''About D'', meta_date = Some ''soon''\<rparr>, [])"
  by code_simp

lemma example_read_e:
  "readPostMetadata example_platform example_files 7 ''pages/posts/sub/e.mdx'' =
     Inr \<lparr>filePath = ''pages/posts/sub/e.mdx'', urlPath = ''/posts/sub/e'', title = Some ''E'',
          date = InvalidDate, description = Some ''About E''\<rparr>"
  by code_simp

lemma example_read_a:
  "readPostMetadata example_platform example_files 7 ''pages/posts/a.mdx'' =
     Inr \<lparr>filePath = ''pages/posts/a.mdx'', urlPath = ''/posts/a'', title = Some ''A'',
          date = TimeValue 1577836800000, description = Some ''About A''\<rparr>"
  by code_simp

lemma example_read_b:
  "readPostMetadata example_platform example_files 1593561600001 ''pages/posts/b.mdx'' =
     Inr \<lparr>filePath = ''pages/posts/b.mdx'', urlPath = ''/posts/b'', title = Some ''B'',
          date = TimeValue 1593561600001, description = Some ''About B''\<rparr>"
  by code_simp

lemma example_read_d:
  "readPostMetadata example_platform example_files 7 ''pages/posts/sub/d.mdx'' =
     Inr \<lparr>filePath = ''pages/posts/sub/d.mdx'', urlPath = ''/posts/sub/d'', title = Some ''D'',
          date = InvalidDate, description = Some ''About D''\<rparr>"
  by code_simp

text \<open>
  Claim C4, as stated, fails: a document whose \<^verbatim>\<open>meta\<close> object exists and has no date field
  does not get the clock reading as its date. \<^verbatim>\<open>new Date(undefined)\<close> is an invalid date,
  and as an object it is true in the condition, so the clock is not read.
\<close>

theorem meta_without_date_counterexample:
  "requireMDXFileSync example_platform example_files ''pages/posts/sub/e.mdx'' =
     Inr (Some \<lparr>meta_title = Some ''E'', meta_description = Some ''About E'', meta_date = None\<rparr>, []) \<and>
   readPostMetadata example_platform example_files 7 ''pages/posts/sub/e.mdx'' =
     Inr \<lparr>filePath = ''pages/posts/sub/e.mdx'', urlPath = ''/posts/sub/e'', title = Some ''E'',
          date = InvalidDate, description = Some ''About E''\<rparr> \<and>
   InvalidDate \<noteq> TimeValue 7"
  using example_e example_read_e by simp

text \<open>
  Claim C4, amended. The date of the record is the clock reading at extraction exactly
  when the module exports no \<^verbatim>\<open>meta\<close> object. When \<^verbatim>\<open>meta\<close> exists, the date is the
  timestamp parsed from its date field if the field is present and parses, and the
  invalid date if the field is absent or does not parse.
\<close>

theorem resolve_date_cases:
  "resolve_date parse clock None = TimeValue clock \<and>
   (meta_date mt = Some s \<and> parse s = Some t \<longrightarrow> resolve_date parse clock (Some mt) = TimeValue t) \<and>
   (meta_date mt = Some s \<and> parse s = None \<longrightarrow> resolve_date parse clock (Some mt) = InvalidDate) \<and>
   (meta_date mt = None \<longrightarrow> resolve_date parse clock (Some mt) = InvalidDate) \<and>
   (requireMDXFileSync pf files postPath = Inr (m, ast) \<and> readPostMetadata pf files clock postPath = Inr p
      \<longrightarrow> date p = resolve_date (Date_parse pf) clock m)"
  by (auto simp: new_Date_def readPostMetadata_date)

theorem resolve_date_cases_witness:
  "resolve_date example_parse 7 None = TimeValue 7 \<and>
   resolve_date example_parse 7 (Some \<lparr>meta_title = Some ''A'', meta_description = Some ''About A'',
      meta_date = Some ''2020-01-01T00:00:00.000Z''\<rparr>) = TimeValue 1577836800000 \<and>
   resolve_date example_parse 7 (Some \<lparr>meta_title = Some ''D'', meta_description = Some ''About D'',
      meta_date = Some ''soon''\<rparr>) = InvalidDate \<and>
   resolve_date example_parse 7 (Some \<lparr>meta_title = Some ''E'', meta_description = Some ''About E'',
      meta_date = None\<rparr>) = InvalidDate \<and>
   date \<lparr>filePath = ''pages/posts/a.mdx'', urlPath = ''/posts/a'', title = Some ''A'',
          date = TimeValue 1577836800000, description = Some ''About A''\<rparr>
     = resolve_date (Date_parse example_platform) 7 (Some \<lparr>meta_title = Some ''A'', meta_description = Some ''About A'',
                   meta_date = Some ''2020-01-01T00:00:00.000Z''\<rparr>)"
proof -
  let ?ma = "\<lparr>meta_title = Some ''A'', meta_description = Some ''About A'',
      meta_date = Some ''2020-01-01T00:00:00.000Z''\<rparr>"
  let ?md = "\<lparr>meta_title = Some ''D'', meta_description = Some ''About D'', meta_date = Some ''soon''\<rparr>"
  let ?me = "\<lparr>meta_title = Some ''E'', meta_description = Some ''About E'', meta_date = None\<rparr>"
  have pa: "example_parse ''2020-01-01T00:00:00.000Z'' = Some 1577836800000"
    and pd: "example_parse ''soon'' = None"
    by (simp_all add: example_parse_def)
  note a = resolve_date_cases [where parse = example_parse and clock = 7 and mt = ?ma
      and s = "''2020-01-01T00:00:00.000Z''" and t = 1577836800000 and pf = example_platform
      and postPath = "''pages/posts/a.mdx''" and m = "Some ?ma" and ast = "[]"
      and p = "\<lparr>filePath = ''pages/posts/a.mdx'', urlPath = ''/posts/a'', title = Some ''A'',
          date = TimeValue 1577836800000, description = Some ''About A''\<rparr>"]
  note d = resolve_date_cases [where parse = example_parse and clock = 7 and mt = ?md and s = "''soon''"]
  note e = resolve_date_cases [where parse = example_parse and clock = 7 and mt = ?me]
  have 1: "resolve_date example_parse 7 None = TimeValue 7"
    using a by blast
  have 2: "resolve_date example_parse 7 (Some ?ma) = TimeValue 1577836800000"
    using a pa by simp
  have 3: "resolve_date example_parse 7 (Some ?md) = InvalidDate"
    using d pd by simp
  have 4: "resolve_date example_parse 7 (Some ?me) = InvalidDate"
    using e by simp
  have 5: "date \<lparr>filePath = ''pages/posts/a.mdx'', urlPath = ''/posts/a'', title = Some ''A'',
          date = TimeValue 1577836800000, description = Some ''About A''\<rparr>
     = resolve_date (Date_parse example_platform) 7 (Some ?ma)"
    using a example_a example_read_a by blast
  from 1 2 3 4 5 show ?thesis by blast
qed

text \<open>
  Claim C9. A document whose module exports no \<^verbatim>\<open>meta\<close> gets the clock reading during its
  extraction as its date. \<^verbatim>\<open>main\<close> takes \<open>now\<close> before it extracts, so whenever that
  reading is later than \<open>now\<close> the record fails \<^verbatim>\<open>date <= now\<close>, and no published post
  (the list both files are written from) comes from that document.
\<close>

theorem no_meta_post_dated_by_clock:
  "(requireMDXFileSync pf files postPath = Inr (None, ast) \<and> readPostMetadata pf files clock postPath = Inr p
      \<longrightarrow> date p = TimeValue clock \<and> (now < clock \<longrightarrow> \<not> not_after now p)) \<and>
   (main_posts pf files root now clock_at = Inr posts \<and> requireMDXFileSync pf files postPath = Inr (None, ast) \<and>
    now < clock_at postPath \<longrightarrow> (\<forall>q\<in>set posts. filePath q \<noteq> postPath))"
proof (intro conjI impI)
  assume a: "requireMDXFileSync pf files postPath = Inr (None, ast) \<and> readPostMetadata pf files clock postPath = Inr p"
  then show "date p = TimeValue clock"
    using readPostMetadata_date [of pf files postPath None ast clock p] by simp
  then show "\<not> not_after now p" if "now < clock"
    using that by (simp add: not_after_iff)
next
  assume a: "main_posts pf files root now clock_at = Inr posts \<and> requireMDXFileSync pf files postPath = Inr (None, ast) \<and>
    now < clock_at postPath"
  show "\<forall>q\<in>set posts. filePath q \<noteq> postPath"
  proof
    fix q assume q: "q \<in> set posts"
    show "filePath q \<noteq> postPath"
    proof
      assume eq: "filePath q = postPath"
      from a q main_posts_member [of pf files root now clock_at posts q] eq
      have r: "readPostMetadata pf files (clock_at postPath) postPath = Inr q" and na: "not_after now q"
        by simp_all
      from a r have "date q = TimeValue (clock_at postPath)"
        using readPostMetadata_date [of pf files postPath None ast "clock_at postPath" q] by simp
      with na a show False by (simp add: not_after_iff)
    qed
  qed
qed

theorem no_meta_post_dated_by_clock_witness:
  "date \<lparr>filePath = ''pages/posts/b.mdx'', urlPath = ''/posts/b'', title = Some ''B'',
          date = TimeValue 1593561600001, description = Some ''About B''\<rparr> = TimeValue 1593561600001 \<and>
   \<not> not_after 1593561600000
      \<lparr>filePath = ''pages/posts/b.mdx'', urlPath = ''/posts/b'', title = Some ''B'',
          date = TimeValue 1593561600001, description = Some ''About B''\<rparr> \<and>
   main_posts example_platform example_files example_root 1593561600000 (\<lambda>path. 1593561600001) = Inr example_published \<and>
   list_all (\<lambda>q. filePath q \<noteq> ''pages/posts/b.mdx'') example_published"
proof -
  let ?ast = "[Node ''heading'' (Some 1) (Some [Node ''text'' None None (Some ''B'')]) None,
              Node ''paragraph'' None (Some [Node ''text'' None None (Some ''About B'')]) None]"
  let ?p = "\<lparr>filePath = ''pages/posts/b.mdx'', urlPath = ''/posts/b'', title = Some ''B'',
          date = TimeValue 1593561600001, description = Some ''About B''\<rparr>"
  note w = no_meta_post_dated_by_clock [where pf = example_platform and files = example_files and postPath = "''pages/posts/b.mdx''" and ast = ?ast
      and clock = 1593561600001 and p = ?p and now = 1593561600000 and root = example_root
      and clock_at = "\<lambda>path. 1593561600001" and posts = example_published]
  have late: "(1593561600000::int) < 1593561600001"
    by simp
  from w example_b example_read_b late
  have 1: "date ?p = TimeValue 1593561600001" and 2: "\<not> not_after 1593561600000 ?p"
    by blast+
  from w example_b example_main_posts late
  have "\<forall>q\<in>set example_published. filePath q \<noteq> ''pages/posts/b.mdx''"
    by blast
  then have 3: "list_all (\<lambda>q. filePath q \<noteq> ''pages/posts/b.mdx'') example_published"
    by (simp add: list_all_iff)
  from 1 2 3 example_main_posts show ?thesis
    by blast
qed

text \<open>
  Claim C10. For a document whose \<^verbatim>\<open>meta\<close> exists and whose date string does not parse,
  building the date raises nothing: when title and description resolve, extraction
  returns a record, its date is the invalid date, \<^verbatim>\<open>date <= now\<close> is false for it, and no
  published post comes from that document.
\<close>

theorem unparseable_date_excluded:
  "(requireMDXFileSync pf files postPath = Inr (Some mt, ast) \<and> meta_date mt = Some s \<and> Date_parse pf s = None
      \<longrightarrow> (\<forall>t d. resolve_title (Some mt) ast = Inr t \<and> resolve_description (Some mt) ast = Inr d \<longrightarrow>
             readPostMetadata pf files clock postPath =
               Inr \<lparr>filePath = postPath, urlPath = urlPath_of postPath, title = t,
                    date = InvalidDate, description = d\<rparr>) \<and>
          (\<forall>p. readPostMetadata pf files clock postPath = Inr p \<longrightarrow> date p = InvalidDate \<and> \<not> not_after now p)) \<and>
   \<not> date_le InvalidDate (TimeValue now) \<and>
   (main_posts pf files root now clock_at = Inr posts \<and> requireMDXFileSync pf files postPath = Inr (Some mt, ast) \<and>
    meta_date mt = Some s \<and> Date_parse pf s = None \<longrightarrow> (\<forall>q\<in>set posts. filePath q \<noteq> postPath))"
proof (intro conjI impI allI)
  assume a: "requireMDXFileSync pf files postPath = Inr (Some mt, ast) \<and> meta_date mt = Some s \<and> Date_parse pf s = None"
  then have rd: "resolve_date (Date_parse pf) clock (Some mt) = InvalidDate"
    by (simp add: new_Date_def)
  show "readPostMetadata pf files clock postPath =
               Inr \<lparr>filePath = postPath, urlPath = urlPath_of postPath, title = t,
                    date = InvalidDate, description = d\<rparr>"
    if "resolve_title (Some mt) ast = Inr t \<and> resolve_description (Some mt) ast = Inr d" for t d
    using that a rd by (simp add: readPostMetadata_def)
  show "date p = InvalidDate" if "readPostMetadata pf files clock postPath = Inr p" for p
    using that a rd readPostMetadata_date [of pf files postPath "Some mt" ast clock p] by simp
  then show "\<not> not_after now p" if "readPostMetadata pf files clock postPath = Inr p" for p
    using that by (simp add: not_after_iff)
next
  show "\<not> date_le InvalidDate (TimeValue now)"
    by (simp add: date_le_def)
next
  assume a: "main_posts pf files root now clock_at = Inr posts \<and> requireMDXFileSync pf files postPath = Inr (Some mt, ast) \<and>
    meta_date mt = Some s \<and> Date_parse pf s = None"
  then have rd: "\<And>clock. resolve_date (Date_parse pf) clock (Some mt) = InvalidDate"
    by (simp add: new_Date_def)
  show "\<forall>q\<in>set posts. filePath q \<noteq> postPath"
  proof
    fix q assume q: "q \<in> set posts"
    show "filePath q \<noteq> postPath"
    proof
      assume eq: "filePath q = postPath"
      from a q main_posts_member [of pf files root now clock_at posts q] eq
      have r: "readPostMetadata pf files (clock_at postPath) postPath = Inr q" and na: "not_after now q"
        by simp_all
      from a r rd have "date q = InvalidDate"
        using readPostMetadata_date [of pf files postPath "Some mt" ast "clock_at postPath" q] by simp
      with na show False by (simp add: not_after_iff)
    qed
  qed
qed

theorem unparseable_date_excluded_witness:
  "readPostMetadata example_platform example_files 7 ''pages/posts/sub/d.mdx'' =
     Inr \<lparr>filePath = ''pages/posts/sub/d.mdx'', urlPath = urlPath_of ''pages/posts/sub/d.mdx'',
          title = Some ''D'', date = InvalidDate, description = Some ''About D''\<rparr> \<and>
   \<not> not_after 1593561600000
      \<lparr>filePath = ''pages/posts/sub/d.mdx'', urlPath = ''/posts/sub/d'', title = Some ''D'',
          date = InvalidDate, description = Some ''About D''\<rparr> \<and>
   main_posts example_platform example_files example_root 1593561600000 (\<lambda>path. 1593561600001) = Inr example_published \<and>
   list_all (\<lambda>q. filePath q \<noteq> ''pages/posts/sub/d.mdx'') example_published"
proof -
  let ?mt = "\<lparr>meta_title = Some ''D'', meta_description = Some ''About D'', meta_date = Some ''soon''\<rparr>"
  let ?p = "\<lparr>filePath = ''pages/posts/sub/d.mdx'', urlPath = ''/posts/sub/d'', title = Some ''D'',
          date = InvalidDate, description = Some ''About D''\<rparr>"
  note w = unparseable_date_excluded [where pf = example_platform and files = example_files and postPath = "''pages/posts/sub/d.mdx''" and mt = ?mt
      and ast = "[]" and s = "''soon''" and clock = 7 and now = 1593561600000 and root = example_root
      and clock_at = "\<lambda>path. 1593561600001" and posts = example_published]
  have unparsed: "meta_date ?mt = Some ''soon''" "Date_parse example_platform ''soon'' = None"
    by (simp_all add: example_platform_def example_parse_def)
  have resolved: "resolve_title (Some ?mt) [] = Inr (Some ''D'')"
    "resolve_description (Some ?mt) [] = Inr (Some ''About D'')"
    by (simp_all add: resolve_title_def resolve_description_def)
  from w example_d unparsed resolved
  have 1: "readPostMetadata example_platform example_files 7 ''pages/posts/sub/d.mdx'' =
     Inr \<lparr>filePath = ''pages/posts/sub/d.mdx'', urlPath = urlPath_of ''pages/posts/sub/d.mdx'',
          title = Some ''D'', date = InvalidDate, description = Some ''About D''\<rparr>"
    by blast
  from w example_d unparsed example_read_d
  have 2: "\<not> not_after 1593561600000 ?p"
    by blast
  from w example_d unparsed example_main_posts
  have "\<forall>q\<in>set example_published. filePath q \<noteq> ''pages/posts/sub/d.mdx''"
    by blast
  then have 3: "list_all (\<lambda>q. filePath q \<noteq> ''pages/posts/sub/d.mdx'') example_published"
    by (simp add: list_all_iff)
  from 1 2 3 example_main_posts show ?thesis
    by blast
qed

subsection \<open>The listing as data\<close>

lemma parsed_filePath: "parsed_field (post_toJSON pf p) ''filePath'' = VString (filePath p)"
  by (simp add: parsed_field_def post_toJSON_def json_value_def)

lemma parsed_urlPath: "parsed_field (post_toJSON pf p) ''urlPath'' = VString (urlPath p)"
  by (simp add: parsed_field_def post_toJSON_def json_value_def)

lemma parsed_title: "parsed_field (post_toJSON pf p) ''title'' = optional_string (title p)"
  by (cases "title p"; cases "description p")
     (simp_all add: parsed_field_def post_toJSON_def json_value_def optional_property_def
       optional_string_def)

lemma parsed_description:
  "parsed_field (post_toJSON pf p) ''description'' = optional_string (description p)"
  by (cases "title p"; cases "description p")
     (simp_all add: parsed_field_def post_toJSON_def json_value_def optional_property_def
       optional_string_def)

lemma parsed_date:
  "parsed_field (post_toJSON pf p) ''date'' =
     (case date p of TimeValue t \<Rightarrow> VString (Date_toISOString pf t) | InvalidDate \<Rightarrow> VNull)"
  by (cases "title p"; cases "date p")
     (simp_all add: parsed_field_def post_toJSON_def json_value_def optional_property_def
       date_toJSON_def)

lemma array_elements_posts [simp]: "array_elements (posts_toJSON pf posts) = map (post_toJSON pf) posts"
  by (simp add: array_elements_def posts_toJSON_def)

lemma listing_source_parts:
  "listing_source pf posts
     = listing_prefix @ JSON_stringify pf (posts_toJSON pf posts) @ listing_suffix"
  by (simp add: listing_source_def listing_prefix_def listing_suffix_def)

lemma read_listing_source:
  "read_listing parse_json (listing_source pf posts)
     = parse_json (JSON_stringify pf (posts_toJSON pf posts))"
  by (simp add: read_listing_def listing_source_parts suffix_def)

lemma example_read_listing:
  "read_listing json_read
     (listing_source example_platform [example_post ''pages/posts/a.mdx'' (TimeValue 1577836800000)])
     = Some (posts_toJSON example_platform
               [example_post ''pages/posts/a.mdx'' (TimeValue 1577836800000)])"
  by code_simp

lemma example_json_read:
  "json_read (JSON_stringify example_platform (posts_toJSON example_platform example_published))
     = Some (posts_toJSON example_platform example_published)"
  by code_simp

text \<open>
  Claim C6, as stated, fails: \<^verbatim>\<open>JSON.stringify\<close> prints a date as its ISO string, so the
  record read back from the listing has a string where the input record has a date.
\<close>

theorem listing_date_counterexample:
  "read_listing json_read
     (listing_source example_platform [example_post ''pages/posts/a.mdx'' (TimeValue 1577836800000)])
     = Some (JArray [post_toJSON example_platform
                       (example_post ''pages/posts/a.mdx'' (TimeValue 1577836800000))]) \<and>
   parsed_field
     (post_toJSON example_platform (example_post ''pages/posts/a.mdx'' (TimeValue 1577836800000)))
     ''date''
     = VString ''2020-01-01T00:00:00.000Z'' \<and>
   post_field (example_post ''pages/posts/a.mdx'' (TimeValue 1577836800000)) ''date''
     = VDate (TimeValue 1577836800000) \<and>
   VString ''2020-01-01T00:00:00.000Z'' \<noteq> VDate (TimeValue 1577836800000)"
  using example_read_listing
  by (simp add: parsed_date example_post_def post_field_def example_platform_def
      example_toISOString_def posts_toJSON_def)

text \<open>
  Claim C6, amended. Where the JSON reader gives back the value that the printer printed,
  reading the array of the listing file back gives, in the same order, one object per
  input record whose \<^verbatim>\<open>filePath\<close>, \<^verbatim>\<open>urlPath\<close>, \<^verbatim>\<open>title\<close> and \<^verbatim>\<open>description\<close> equal
  the record's. The \<^verbatim>\<open>date\<close> comes back as the ISO string of the record's date
  (\<^verbatim>\<open>null\<close> for an invalid date), not as a date; for a record with a time value that the
  date parser reads back from what \<^verbatim>\<open>toISOString\<close> prints, \<^verbatim>\<open>new Date\<close> of the string
  read back is the record's date. The listing file that a completed run of \<^verbatim>\<open>main\<close>
  leaves reads back as the published posts in this way.
\<close>

theorem listing_read_back:
  "(parse_json (JSON_stringify pf (posts_toJSON pf posts)) = Some (posts_toJSON pf posts) \<longrightarrow>
      (\<exists>data. read_listing parse_json (listing_source pf posts) = Some data \<and>
         map (\<lambda>j. map (parsed_field j) [''filePath'', ''urlPath'', ''title'', ''description''])
             (array_elements data)
           = map (\<lambda>p. map (post_field p) [''filePath'', ''urlPath'', ''title'', ''description''])
               posts \<and>
         map (\<lambda>j. parsed_field j ''date'') (array_elements data)
           = map (\<lambda>p. case date p of TimeValue t \<Rightarrow> VString (Date_toISOString pf t)
                      | InvalidDate \<Rightarrow> VNull) posts \<and>
         list_all2
           (\<lambda>j p. \<forall>t. date p = TimeValue t \<and> Date_parse pf (Date_toISOString pf t) = Some t \<longrightarrow>
              parsed_field j ''date'' = VString (Date_toISOString pf t) \<and>
              new_Date (Date_parse pf) (Some (Date_toISOString pf t)) = date p)
           (array_elements data) posts)) \<and>
   (main pf root now clock_at writable files = (None, written) \<and>
    main_posts pf files root now clock_at = Inr posts \<and>
    parse_json (JSON_stringify pf (posts_toJSON pf posts)) = Some (posts_toJSON pf posts) \<longrightarrow>
      (\<exists>text. written exportPath = Some text \<and>
         read_listing parse_json text = Some (posts_toJSON pf posts)))"
proof (intro conjI impI)
  assume inv: "parse_json (JSON_stringify pf (posts_toJSON pf posts)) = Some (posts_toJSON pf posts)"
  have fields: "map (\<lambda>j. map (parsed_field j) [''filePath'', ''urlPath'', ''title'', ''description''])
       (array_elements (posts_toJSON pf posts))
     = map (\<lambda>p. map (post_field p) [''filePath'', ''urlPath'', ''title'', ''description'']) posts"
    by (simp add: parsed_filePath parsed_urlPath parsed_title parsed_description post_field_def)
  have dates: "map (\<lambda>j. parsed_field j ''date'') (array_elements (posts_toJSON pf posts))
     = map (\<lambda>p. case date p of TimeValue t \<Rightarrow> VString (Date_toISOString pf t) | InvalidDate \<Rightarrow> VNull) posts"
    by (simp add: parsed_date)
  have revived: "list_all2
           (\<lambda>j p. \<forall>t. date p = TimeValue t \<and> Date_parse pf (Date_toISOString pf t) = Some t \<longrightarrow>
              parsed_field j ''date'' = VString (Date_toISOString pf t) \<and>
              new_Date (Date_parse pf) (Some (Date_toISOString pf t)) = date p)
           (array_elements (posts_toJSON pf posts)) posts"
    by (simp add: list_all2_map1 list_all2_same parsed_date new_Date_def)
  from inv have "read_listing parse_json (listing_source pf posts) = Some (posts_toJSON pf posts)"
    by (simp add: read_listing_source)
  with fields dates revived
  show "\<exists>data. read_listing parse_json (listing_source pf posts) = Some data \<and>
         map (\<lambda>j. map (parsed_field j) [''filePath'', ''urlPath'', ''title'', ''description''])
             (array_elements data)
           = map (\<lambda>p. map (post_field p) [''filePath'', ''urlPath'', ''title'', ''description''])
               posts \<and>
         map (\<lambda>j. parsed_field j ''date'') (array_elements data)
           = map (\<lambda>p. case date p of TimeValue t \<Rightarrow> VString (Date_toISOString pf t)
                      | InvalidDate \<Rightarrow> VNull) posts \<and>
         list_all2
           (\<lambda>j p. \<forall>t. date p = TimeValue t \<and> Date_parse pf (Date_toISOString pf t) = Some t \<longrightarrow>
              parsed_field j ''date'' = VString (Date_toISOString pf t) \<and>
              new_Date (Date_parse pf) (Some (Date_toISOString pf t)) = date p)
           (array_elements data) posts"
    by blast
next
  assume a: "main pf root now clock_at writable files = (None, written) \<and>
    main_posts pf files root now clock_at = Inr posts \<and>
    parse_json (JSON_stringify pf (posts_toJSON pf posts)) = Some (posts_toJSON pf posts)"
  then have "written exportPath = Some (listing_source pf posts)"
    using paths_distinct by (auto simp: main_completes)
  with a show "\<exists>text. written exportPath = Some text \<and>
         read_listing parse_json text = Some (posts_toJSON pf posts)"
    by (simp add: read_listing_source)
qed

theorem listing_read_back_witness:
  "read_listing json_read (listing_source example_platform example_published)
     = Some (posts_toJSON example_platform example_published) \<and>
   map (\<lambda>j. map (parsed_field j) [''filePath'', ''urlPath'', ''title'', ''description''])
       (array_elements (posts_toJSON example_platform example_published))
     = [[VString ''pages/posts/sub/c.mdx'', VString ''/posts/sub/c'', VString ''C'', VString ''About C''],
        [VString ''pages/posts/a.mdx'', VString ''/posts/a'', VString ''A'', VString ''About A'']] \<and>
   map (\<lambda>j. parsed_field j ''date'') (array_elements (posts_toJSON example_platform example_published))
     = [VString ''2020-06-01T00:00:00.000Z'', VString ''2020-01-01T00:00:00.000Z''] \<and>
   new_Date (Date_parse example_platform) (Some ''2020-06-01T00:00:00.000Z'')
     = date (hd example_published) \<and>
   (\<exists>text. example_written example_published exportPath = Some text \<and>
      read_listing json_read text = Some (posts_toJSON example_platform example_published))"
proof -
  let ?data = "posts_toJSON example_platform example_published"
  note w = listing_read_back [where pf = example_platform and posts = example_published
      and parse_json = json_read and root = example_root and now = 1593561600000
      and clock_at = "\<lambda>path. 1593561600001" and writable = "\<lambda>path. True"
      and files = example_files and written = "example_written example_published"]
  have first: "date (hd example_published) = TimeValue 1590969600000"
    "Date_toISOString example_platform 1590969600000 = ''2020-06-01T00:00:00.000Z''"
    "Date_parse example_platform ''2020-06-01T00:00:00.000Z'' = Some 1590969600000"
    by (simp_all add: example_published_def example_platform_def example_parse_def
        example_toISOString_def)
  have fields: "map (\<lambda>p. map (post_field p) [''filePath'', ''urlPath'', ''title'', ''description''])
      example_published
     = [[VString ''pages/posts/sub/c.mdx'', VString ''/posts/sub/c'', VString ''C'', VString ''About C''],
        [VString ''pages/posts/a.mdx'', VString ''/posts/a'', VString ''A'', VString ''About A'']]"
    by (simp add: example_published_def post_field_def optional_string_def)
  have dates: "map (\<lambda>p. case date p of TimeValue t \<Rightarrow> VString (Date_toISOString example_platform t)
        | InvalidDate \<Rightarrow> VNull) example_published
     = [VString ''2020-06-01T00:00:00.000Z'', VString ''2020-01-01T00:00:00.000Z'']"
    by (simp add: example_published_def example_platform_def example_toISOString_def)
  from w example_json_read obtain data
    where data: "read_listing json_read (listing_source example_platform example_published) = Some data"
      and f: "map (\<lambda>j. map (parsed_field j) [''filePath'', ''urlPath'', ''title'', ''description''])
             (array_elements data)
           = map (\<lambda>p. map (post_field p) [''filePath'', ''urlPath'', ''title'', ''description''])
               example_published"
      and d: "map (\<lambda>j. parsed_field j ''date'') (array_elements data)
           = map (\<lambda>p. case date p of TimeValue t \<Rightarrow> VString (Date_toISOString example_platform t)
                      | InvalidDate \<Rightarrow> VNull) example_published"
      and r: "list_all2
           (\<lambda>j p. \<forall>t. date p = TimeValue t \<and>
                Date_parse example_platform (Date_toISOString example_platform t) = Some t \<longrightarrow>
              parsed_field j ''date'' = VString (Date_toISOString example_platform t) \<and>
              new_Date (Date_parse example_platform) (Some (Date_toISOString example_platform t)) = date p)
           (array_elements data) example_published"
    by blast
  from data example_json_read have eq: "data = ?data"
    by (simp add: read_listing_source)
  from data eq have 1: "read_listing json_read (listing_source example_platform example_published)
      = Some ?data"
    by simp
  from f [unfolded eq] fields have 2: "map (\<lambda>j. map (parsed_field j) [''filePath'', ''urlPath'', ''title'', ''description''])
       (array_elements ?data)
     = [[VString ''pages/posts/sub/c.mdx'', VString ''/posts/sub/c'', VString ''C'', VString ''About C''],
        [VString ''pages/posts/a.mdx'', VString ''/posts/a'', VString ''A'', VString ''About A'']]"
    by (rule trans)
  from d [unfolded eq] dates have 3: "map (\<lambda>j. parsed_field j ''date'') (array_elements ?data)
     = [VString ''2020-06-01T00:00:00.000Z'', VString ''2020-01-01T00:00:00.000Z'']"
    by (rule trans)
  from r [unfolded eq] have "\<forall>p\<in>set example_published. \<forall>t. date p = TimeValue t \<and>
        Date_parse example_platform (Date_toISOString example_platform t) = Some t \<longrightarrow>
      new_Date (Date_parse example_platform) (Some (Date_toISOString example_platform t)) = date p"
    by (simp add: list_all2_map1 list_all2_same)
  moreover have "hd example_published \<in> set example_published"
    by (simp add: example_published_def)
  ultimately have "\<forall>t. date (hd example_published) = TimeValue t \<and>
        Date_parse example_platform (Date_toISOString example_platform t) = Some t \<longrightarrow>
      new_Date (Date_parse example_platform) (Some (Date_toISOString example_platform t))
        = date (hd example_published)"
    by blast
  with first have 4: "new_Date (Date_parse example_platform) (Some ''2020-06-01T00:00:00.000Z'')
     = date (hd example_published)"
    by fastforce
  from w example_main example_main_posts example_json_read
  have 5: "\<exists>text. example_written example_published exportPath = Some text \<and>
      read_listing json_read text = Some ?data"
    by blast
  from 1 2 3 4 5 show ?thesis
    by (intro conjI)
qed

subsection \<open>The scan\<close>

lemma scan_depth_first:
  "list_all (\<lambda>entry. statable (snd entry)) entries \<Longrightarrow>
   scan extension dirPath entries mdxFiles = Inr (mdxFiles @ depth_first extension dirPath entries)"
proof (induction extension dirPath entries mdxFiles rule: scan.induct)
  case (1 extension dirPath entries mdxFiles)
  let ?body = "\<lambda>(filename, st) mdxFiles.
          let filePath = path_join dirPath filename in
          case st of
            NoStat \<Rightarrow> Inl StatError
          | File \<Rightarrow> Inr (if suffix extension filePath then mdxFiles @ [filePath] else mdxFiles)
          | Dir sub \<Rightarrow> scan extension filePath sub mdxFiles
          | Other \<Rightarrow> Inr mdxFiles"
  let ?found = "\<lambda>(filename, st).
                    case st of
                      File \<Rightarrow> (if suffix extension (path_join dirPath filename)
                               then [path_join dirPath filename] else [])
                    | Dir sub \<Rightarrow> depth_first extension (path_join dirPath filename) sub
                    | _ \<Rightarrow> []"
  have loop: "for_each ?body xs a = Inr (a @ concat (map ?found xs))"
    if "set xs \<subseteq> set entries" for xs a
    using that
  proof (induction xs arbitrary: a)
    case Nil
    show ?case by simp
  next
    case (Cons x xs)
    obtain n st where x: "x = (n, st)"
      by (cases x)
    with Cons.prems have mem: "(n, st) \<in> set entries"
      by simp
    with "1.prems" have ok: "statable st"
      by (auto simp: list_all_iff)
    have "?body x a = Inr (a @ ?found x)"
    proof (cases st)
      case (Dir sub)
      with ok have "list_all (\<lambda>entry. statable (snd entry)) sub"
        by simp
      with "1.IH" [of x n st "path_join dirPath n" sub a] mem x Dir show ?thesis
        by simp
    qed (use ok x in auto)
    with Cons show ?case
      by simp
  qed
  from loop [of "sort_key fst entries" mdxFiles] show ?case
    by (simp add: scan.simps [of extension dirPath entries] depth_first.simps [of extension dirPath entries])
qed

lemma for_each_error:
  "for_each body xs s = Inl e \<Longrightarrow> \<exists>x\<in>set xs. \<exists>a. body x a = Inl e"
  by (induction xs arbitrary: s) (auto split: sum.splits)

lemma scan_error: "scan extension dirPath entries mdxFiles = Inl e \<Longrightarrow> e = StatError"
proof (induction extension dirPath entries mdxFiles rule: scan.induct)
  case (1 extension dirPath entries mdxFiles)
  from "1.prems" obtain x a where x: "x \<in> set (sort_key fst entries)"
    and bad: "(case x of (filename, st) \<Rightarrow> \<lambda>mdxFiles.
          let filePath = path_join dirPath filename in
          case st of
            NoStat \<Rightarrow> Inl StatError
          | File \<Rightarrow> Inr (if suffix extension filePath then mdxFiles @ [filePath] else mdxFiles)
          | Dir sub \<Rightarrow> scan extension filePath sub mdxFiles
          | Other \<Rightarrow> Inr mdxFiles) a = Inl e"
    unfolding scan.simps [of extension dirPath entries] by (blast dest: for_each_error)
  obtain n st where nst: "x = (n, st)"
    by (cases x)
  show ?case
  proof (cases st)
    case (Dir sub)
    with "1.IH" [of x n st "path_join dirPath n" sub a] x bad nst show ?thesis
      by simp
  qed (use bad nst in \<open>auto simp: Let_def\<close>)
qed

lemma scan_not_statable:
  "\<not> list_all (\<lambda>entry. statable (snd entry)) entries \<Longrightarrow>
   scan extension dirPath entries mdxFiles = Inl StatError"
proof (induction extension dirPath entries mdxFiles rule: scan.induct)
  case (1 extension dirPath entries mdxFiles)
  let ?body = "\<lambda>(filename, st) mdxFiles.
          let filePath = path_join dirPath filename in
          case st of
            NoStat \<Rightarrow> Inl StatError
          | File \<Rightarrow> Inr (if suffix extension filePath then mdxFiles @ [filePath] else mdxFiles)
          | Dir sub \<Rightarrow> scan extension filePath sub mdxFiles
          | Other \<Rightarrow> Inr mdxFiles"
  have loop: "for_each ?body xs a = Inl StatError"
    if "set xs \<subseteq> set entries" and "\<not> list_all (\<lambda>entry. statable (snd entry)) xs" for xs a
    using that
  proof (induction xs arbitrary: a)
    case Nil
    then show ?case by simp
  next
    case (Cons x xs)
    obtain n st where x: "x = (n, st)"
      by (cases x)
    with Cons.prems have mem: "(n, st) \<in> set entries"
      by simp
    show ?case
    proof (cases "statable st")
      case True
      with Cons.prems x have rest: "\<not> list_all (\<lambda>entry. statable (snd entry)) xs"
        by simp
      from True have "?body x a = Inl StatError \<or> (\<exists>a'. ?body x a = Inr a')"
        by (cases "?body x a") (auto simp: x Let_def split: fsnode.splits dest: scan_error)
      with Cons.IH [OF _ rest] Cons.prems show ?thesis
        by auto
    next
      case False
      have "?body x a = Inl StatError"
      proof (cases st)
        case (Dir sub)
        with False have "\<not> list_all (\<lambda>entry. statable (snd entry)) sub"
          by simp
        with "1.IH" [of x n st "path_join dirPath n" sub a] mem x Dir show ?thesis
          by simp
      qed (use False x in auto)
      then show ?thesis
        by simp
    qed
  qed
  have "\<not> list_all (\<lambda>entry. statable (snd entry)) (sort_key fst entries)"
    using "1.prems" by (simp add: list_all_iff)
  with loop [of "sort_key fst entries" mdxFiles] show ?case
    by (simp add: scan.simps [of extension dirPath entries])
qed

lemma depth_first_file_at:
  "p \<in> set (depth_first extension dirPath entries) \<Longrightarrow> file_at dirPath entries p \<and> suffix extension p"
proof (induction extension dirPath entries arbitrary: p rule: depth_first.induct)
  case (1 extension dirPath entries)
  from "1.prems" obtain n st where mem: "(n, st) \<in> set entries"
    and p: "p \<in> set (case st of
                      File \<Rightarrow> (if suffix extension (path_join dirPath n)
                               then [path_join dirPath n] else [])
                    | Dir sub \<Rightarrow> depth_first extension (path_join dirPath n) sub
                    | _ \<Rightarrow> [])"
    unfolding depth_first.simps [of extension dirPath entries] by auto
  show ?case
  proof (cases st)
    case File
    with p mem show ?thesis
      by (auto split: if_splits intro: file_at.here)
  next
    case (Dir sub)
    with "1.IH" [of "(n, st)" n st sub p] p mem show ?thesis
      by (auto intro: file_at.below)
  qed (use p in auto)
qed









lemma scanDir_Dir:
  "scanDir dirPath extension (Dir entries) =
     (if statable (Dir entries) then Inr (depth_first extension dirPath entries) else Inl StatError)"
  using scan_depth_first [of entries extension dirPath "[]"]
    scan_not_statable [of entries extension dirPath "[]"]
  by (simp add: scanDir_def)










subsection \<open>Running twice\<close>

lemma array_map_cong:
  "(\<And>x. x \<in> set xs \<Longrightarrow> f x = g x) \<Longrightarrow> array_map f xs = array_map g xs"
  by (induction xs) (auto split: sum.splits)

lemma array_map_agree:
  "(\<And>x. x \<in> set xs \<Longrightarrow> agree_for now (f x) (g x)) \<Longrightarrow>
   map_sum id (filter (not_after now)) (array_map f xs)
     = map_sum id (filter (not_after now)) (array_map g xs)"
proof (induction xs)
  case Nil
  show ?case by simp
next
  case (Cons x xs)
  from Cons.prems have head: "agree_for now (f x) (g x)"
    by simp
  have rest: "map_sum id (filter (not_after now)) (array_map f xs)
     = map_sum id (filter (not_after now)) (array_map g xs)"
    by (rule Cons.IH) (simp add: Cons.prems)
  show ?case
  proof (cases "f x")
    case (Inl e)
    with head have "g x = Inl e"
      by (auto simp: agree_for_def)
    with Inl show ?thesis
      by simp
  next
    case (Inr p)
    with head have "\<exists>p'. g x = Inr p' \<and> (p' = p \<or> \<not> not_after now p \<and> \<not> not_after now p')"
      unfolding agree_for_def by (metis Inr_inject)
    then obtain p' where p': "g x = Inr p'"
      and same: "p' = p \<or> \<not> not_after now p \<and> \<not> not_after now p'"
      by blast
    from rest Inr p' same show ?thesis
      by (cases "array_map f xs"; cases "array_map g xs") (auto simp: id_def)
  qed
qed

lemma readPostMetadata_clocks:
  assumes "\<And>ast. requireMDXFileSync pf files postPath = Inr (None, ast) \<Longrightarrow>
      clock' = clock \<or> now < clock \<and> now < clock'"
  shows "agree_for now (readPostMetadata pf files clock' postPath)
      (readPostMetadata pf files clock postPath)"
proof (cases "requireMDXFileSync pf files postPath")
  case (Inl e)
  then show ?thesis
    by (simp add: readPostMetadata_def agree_for_def)
next
  case (Inr c)
  obtain m ast where c: "c = (m, ast)"
    by (cases c)
  show ?thesis
  proof (cases m)
    case None
    with Inr c assms [of ast] show ?thesis
      by (auto simp: readPostMetadata_def agree_for_def not_after_iff split: sum.splits)
  next
    case (Some mt)
    with Inr c show ?thesis
      by (simp add: readPostMetadata_def agree_for_def split: sum.splits)
  qed
qed

lemma main_posts_clocks:
  assumes "\<And>postPaths path ast. scanDir ''pages/posts'' ''.mdx'' root = Inr postPaths \<Longrightarrow>
      path \<in> set postPaths \<Longrightarrow> requireMDXFileSync pf files path = Inr (None, ast) \<Longrightarrow>
      clock_at' path = clock_at path \<or> now < clock_at path \<and> now < clock_at' path"
  shows "main_posts pf files root now clock_at' = main_posts pf files root now clock_at"
proof (cases "scanDir ''pages/posts'' ''.mdx'' root")
  case (Inl e)
  then show ?thesis
    by (simp add: main_posts_def)
next
  case (Inr postPaths)
  let ?f' = "\<lambda>postPath. readPostMetadata pf files (clock_at' postPath) postPath"
  let ?f = "\<lambda>postPath. readPostMetadata pf files (clock_at postPath) postPath"
  have "map_sum id (filter (not_after now)) (array_map ?f' postPaths)
      = map_sum id (filter (not_after now)) (array_map ?f postPaths)"
    by (rule array_map_agree) (rule readPostMetadata_clocks, rule assms [OF Inr])
  then have "map_sum id (select_posts now) (array_map ?f' postPaths)
      = map_sum id (select_posts now) (array_map ?f postPaths)"
    by (cases "array_map ?f' postPaths"; cases "array_map ?f postPaths")
      (simp_all add: select_posts_def)
  with Inr show ?thesis
    by (cases "array_map ?f' postPaths"; cases "array_map ?f postPaths")
      (simp_all add: main_posts_def)
qed

lemma scanDir_suffix:
  assumes "scanDir dirPath extension root = Inr postPaths" and "p \<in> set postPaths"
  shows "suffix extension p"
proof -
  from assms(1) obtain entries where root: "root = Dir entries"
    by (cases root) (simp_all add: scanDir_def)
  with assms(1) have "postPaths = depth_first extension dirPath entries"
    by (simp add: scanDir_Dir split: if_splits)
  with assms(2) show ?thesis
    by (simp add: depth_first_file_at)
qed

lemma outputs_not_scanned: "\<not> suffix ''.mdx'' exportPath" "\<not> suffix ''.mdx'' rssPath"
  by (simp_all add: exportPath_def rssPath_def suffix_def)

lemma main_posts_outputs:
  assumes "\<forall>x y mdxSrc path. requireMDXSync pf (files(exportPath := x, rssPath := y)) mdxSrc path
      = requireMDXSync pf files mdxSrc path"
  shows "main_posts pf (files(exportPath := x, rssPath := y)) root now clock_at
      = main_posts pf files root now clock_at"
proof (cases "scanDir ''pages/posts'' ''.mdx'' root")
  case (Inl e)
  then show ?thesis
    by (simp add: main_posts_def)
next
  case (Inr postPaths)
  have "readPostMetadata pf (files(exportPath := x, rssPath := y)) (clock_at path) path
      = readPostMetadata pf files (clock_at path) path" if "path \<in> set postPaths" for path
  proof -
    from that Inr have "suffix ''.mdx'' path"
      by (rule scanDir_suffix [rotated])
    with outputs_not_scanned have "path \<noteq> exportPath" "path \<noteq> rssPath"
      by auto
    then have "requireMDXFileSync pf (files(exportPath := x, rssPath := y)) path
        = requireMDXFileSync pf files path"
      using assms by (simp add: requireMDXFileSync_def readFileSync_def split: option.splits)
    then show ?thesis
      by (simp add: readPostMetadata_def)
  qed
  then have "array_map (\<lambda>path. readPostMetadata pf (files(exportPath := x, rssPath := y)) (clock_at path) path) postPaths
      = array_map (\<lambda>path. readPostMetadata pf files (clock_at path) path) postPaths"
    by (rule array_map_cong)
  with Inr show ?thesis
    by (simp add: main_posts_def)
qed

lemma overwrite_outputs:
  "(files(exportPath := x, rssPath := y))(exportPath \<mapsto> l, rssPath \<mapsto> r)
     = files(exportPath \<mapsto> l, rssPath \<mapsto> r)"
  using paths_distinct by (auto simp: fun_eq_iff)

lemma concat_map_insort_key:
  "g x = [] \<Longrightarrow> concat (map g (insort_key f x xs)) = concat (map g xs)"
  by (induction xs) auto

lemma depth_first_other_file:
  assumes "\<not> suffix extension (path_join dirPath filename)"
  shows "depth_first extension dirPath ((filename, File) # entries)
    = depth_first extension dirPath entries"
  unfolding depth_first.simps [of extension dirPath "(filename, File) # entries"]
    depth_first.simps [of extension dirPath entries]
  using assms by (simp add: concat_map_insort_key)

lemma index_gen_not_scanned:
  "scanDir ''pages/posts'' ''.mdx'' (Dir ((''index.gen.js'', File) # entries))
     = scanDir ''pages/posts'' ''.mdx'' (Dir entries)"
proof -
  have "path_join ''pages/posts'' ''index.gen.js'' = ''pages/posts/index.gen.js''"
    by code_simp
  then have "\<not> suffix ''.mdx'' (path_join ''pages/posts'' ''index.gen.js'')"
    by (simp add: suffix_def)
  then show ?thesis
    by (simp add: scanDir_Dir depth_first_other_file)
qed

lemma example_main_posts_same_tick:
  "main_posts example_platform example_files example_root 1593561600000 (\<lambda>path. 1593561600000)
     = Inr (example_undated # example_published)"
  by code_simp

lemma example_listings_differ:
  "listing_source example_platform (example_undated # example_published)
     \<noteq> listing_source example_platform example_published"
  by (simp add: listing_source_def posts_toJSON_def post_toJSON_def example_platform_def
      example_undated_def example_published_def quote_def optional_property_def)

lemma example_feeds_differ:
  "Rss_draw example_platform (example_undated # example_published)
     \<noteq> Rss_draw example_platform example_published"
  by (simp add: example_platform_def example_draw_def example_undated_def example_published_def)

lemma example_scanDir:
  "scanDir ''pages/posts'' ''.mdx'' example_root =
     Inr [''pages/posts/a.mdx'', ''pages/posts/b.mdx'', ''pages/posts/sub/c.mdx'',
          ''pages/posts/sub/d.mdx'', ''pages/posts/sub/e.mdx'']"
  by code_simp

lemma example_only_b_without_meta:
  assumes "path \<in> set [''pages/posts/a.mdx'', ''pages/posts/b.mdx'', ''pages/posts/sub/c.mdx'',
          ''pages/posts/sub/d.mdx'', ''pages/posts/sub/e.mdx'']"
    and "requireMDXFileSync example_platform example_files path = Inr (None, ast)"
  shows "path = ''pages/posts/b.mdx''"
proof (rule ccontr)
  assume "path \<noteq> ''pages/posts/b.mdx''"
  with assms(1) have "\<exists>mt ast'. requireMDXFileSync example_platform example_files path = Inr (Some mt, ast')"
    by (auto simp: requireMDXFileSync_def readFileSync_def example_files_def
        example_platform_def example_documents_def)
  with assms(2) show False
    by simp
qed

text \<open>
  Claim C8, as stated, fails: the documents and \<open>now\<close> do not determine the files. The
  document without \<^verbatim>\<open>meta\<close> is dated by the clock during its extraction. The clock counts
  milliseconds, so it can still show the reading \<open>now\<close> at that moment; in such a run the
  document is published, in a run where the clock has moved on it is not, and both
  files differ between the two runs.
\<close>

theorem main_rerun_clock_counterexample:
  "main example_platform example_root 1593561600000 (\<lambda>path. 1593561600000) (\<lambda>path. True)
     example_files = (None, example_written (example_undated # example_published)) \<and>
   main example_platform example_root 1593561600000 (\<lambda>path. 1593561600001) (\<lambda>path. True)
     example_files = (None, example_written example_published) \<and>
   example_written (example_undated # example_published) exportPath
     \<noteq> example_written example_published exportPath \<and>
   example_written (example_undated # example_published) rssPath
     \<noteq> example_written example_published rssPath"
  using example_listings_differ example_feeds_differ paths_distinct
  by (simp add: main_def example_main_posts example_main_posts_same_tick writeFileSync_def
      example_written_def)

text \<open>
  Claim C8, amended. Given identical documents and files, a fixed \<open>now\<close>, and clock
  readings during the extraction of each scanned document that exports no \<^verbatim>\<open>meta\<close> that
  are the same in both runs or later than \<open>now\<close> in both, two runs end the same way and
  leave the same files. A run whose two writes succeed replaces the whole contents of
  the two output files by the listing and the feed of the published posts and leaves
  every other file as it was; a run whose first write fails leaves the files as they
  were, and one whose second write fails leaves the listing written and the feed as it
  was. Where the result of compiling a document does not depend on the two output
  files, what a run that completes leaves does not depend on what the two output files
  held before, so running again on the files it left changes nothing; and the listing
  file in the scanned directory does not change what a later run scans.
\<close>

theorem main_rerun:
  "((\<forall>postPaths. scanDir ''pages/posts'' ''.mdx'' root = Inr postPaths \<longrightarrow>
       (\<forall>path\<in>set postPaths. \<forall>ast. requireMDXFileSync pf files path = Inr (None, ast) \<longrightarrow>
          clock_at' path = clock_at path \<or> now < clock_at path \<and> now < clock_at' path)) \<longrightarrow>
      main pf root now clock_at' writable files = main pf root now clock_at writable files) \<and>
   (main pf root now clock_at writable files = (None, written) \<longrightarrow>
      (\<exists>posts. main_posts pf files root now clock_at = Inr posts \<and>
         written = files(exportPath \<mapsto> listing_source pf posts, rssPath \<mapsto> Rss_draw pf posts))) \<and>
   (main_posts pf files root now clock_at = Inr posts \<and> \<not> writable exportPath \<longrightarrow>
      main pf root now clock_at writable files = (Some WriteError, files)) \<and>
   (main_posts pf files root now clock_at = Inr posts \<and> writable exportPath \<and> \<not> writable rssPath \<longrightarrow>
      main pf root now clock_at writable files
        = (Some WriteError, files(exportPath \<mapsto> listing_source pf posts))) \<and>
   ((\<forall>x y mdxSrc path. requireMDXSync pf (files(exportPath := x, rssPath := y)) mdxSrc path
        = requireMDXSync pf files mdxSrc path) \<and>
    main pf root now clock_at writable files = (None, written) \<longrightarrow>
      (\<forall>x y. main pf root now clock_at writable (files(exportPath := x, rssPath := y))
         = (None, written)) \<and>
      main pf root now clock_at writable written = (None, written)) \<and>
   main pf (Dir ((''index.gen.js'', File) # entries)) now clock_at writable files
     = main pf (Dir entries) now clock_at writable files"
proof (intro conjI impI)
  assume "\<forall>postPaths. scanDir ''pages/posts'' ''.mdx'' root = Inr postPaths \<longrightarrow>
       (\<forall>path\<in>set postPaths. \<forall>ast. requireMDXFileSync pf files path = Inr (None, ast) \<longrightarrow>
          clock_at' path = clock_at path \<or> now < clock_at path \<and> now < clock_at' path)"
  then have "main_posts pf files root now clock_at' = main_posts pf files root now clock_at"
    by (intro main_posts_clocks) blast
  then show "main pf root now clock_at' writable files = main pf root now clock_at writable files"
    by (simp add: main_def)
next
  assume "main pf root now clock_at writable files = (None, written)"
  then show "\<exists>posts. main_posts pf files root now clock_at = Inr posts \<and>
         written = files(exportPath \<mapsto> listing_source pf posts, rssPath \<mapsto> Rss_draw pf posts)"
    by (auto simp: main_completes)
next
  assume "main_posts pf files root now clock_at = Inr posts \<and> \<not> writable exportPath"
  then show "main pf root now clock_at writable files = (Some WriteError, files)"
    by (simp add: main_def writeFileSync_def)
next
  assume "main_posts pf files root now clock_at = Inr posts \<and> writable exportPath \<and> \<not> writable rssPath"
  then show "main pf root now clock_at writable files
        = (Some WriteError, files(exportPath \<mapsto> listing_source pf posts))"
    by (simp add: main_def writeFileSync_def)
next
  assume a: "(\<forall>x y mdxSrc path. requireMDXSync pf (files(exportPath := x, rssPath := y)) mdxSrc path
        = requireMDXSync pf files mdxSrc path) \<and>
    main pf root now clock_at writable files = (None, written)"
  then obtain posts' where w: "writable exportPath" "writable rssPath"
    and posts': "main_posts pf files root now clock_at = Inr posts'"
    and written: "written = files(exportPath \<mapsto> listing_source pf posts', rssPath \<mapsto> Rss_draw pf posts')"
    by (auto simp: main_completes)
  from a have same: "main_posts pf (files(exportPath := x, rssPath := y)) root now clock_at
      = main_posts pf files root now clock_at" for x y
    by (intro main_posts_outputs) blast
  show before: "\<forall>x y. main pf root now clock_at writable (files(exportPath := x, rssPath := y))
         = (None, written)"
    using w posts' written same by (simp add: main_completes overwrite_outputs)
  from before written show "main pf root now clock_at writable written = (None, written)"
    by simp
next
  show "main pf (Dir ((''index.gen.js'', File) # entries)) now clock_at writable files
     = main pf (Dir entries) now clock_at writable files"
    by (simp add: main_def main_posts_def index_gen_not_scanned)
qed

theorem main_rerun_witness:
  "main example_platform example_root 1593561600000
     (\<lambda>path. if path = ''pages/posts/b.mdx'' then 1593561600005 else 0) (\<lambda>path. True)
     example_files = (None, example_written example_published) \<and>
   main_posts example_platform example_files example_root 1593561600000 (\<lambda>path. 1593561600001)
     = Inr example_published \<and>
   example_written example_published
     = example_files(exportPath \<mapsto> listing_source example_platform example_published,
                     rssPath \<mapsto> Rss_draw example_platform example_published) \<and>
   main example_platform example_root 1593561600000 (\<lambda>path. 1593561600001) (\<lambda>path. False)
     example_files = (Some WriteError, example_files) \<and>
   main example_platform example_root 1593561600000 (\<lambda>path. 1593561600001)
     (\<lambda>path. path \<noteq> rssPath) example_files
     = (Some WriteError,
        example_files(exportPath \<mapsto> listing_source example_platform example_published)) \<and>
   main example_platform example_root 1593561600000 (\<lambda>path. 1593561600001) (\<lambda>path. True)
     (example_files(exportPath := None, rssPath := Some ''an older feed''))
     = (None, example_written example_published) \<and>
   main example_platform example_root 1593561600000 (\<lambda>path. 1593561600001) (\<lambda>path. True)
     (example_written example_published) = (None, example_written example_published) \<and>
   main example_platform (Dir ((''index.gen.js'', File) # example_entries)) 1593561600000
     (\<lambda>path. 1593561600001) (\<lambda>path. True) example_files
     = (None, example_written example_published)"
proof -
  let ?tick = "\<lambda>path :: string. 1593561600001 :: int"
  let ?tick' = "\<lambda>path. if path = ''pages/posts/b.mdx'' then 1593561600005 else (0 :: int)"
  note w = main_rerun [where pf = example_platform and root = example_root and now = 1593561600000
      and clock_at = ?tick and clock_at' = ?tick' and files = example_files
      and written = "example_written example_published" and entries = example_entries
      and posts = example_published]
  note run = w [where writable = "\<lambda>path. True"]
  have completes: "main example_platform example_root 1593561600000 ?tick (\<lambda>path. True) example_files
      = (None, example_written example_published)"
    by (rule example_main)
  have late: "\<forall>postPaths. scanDir ''pages/posts'' ''.mdx'' example_root = Inr postPaths \<longrightarrow>
       (\<forall>path\<in>set postPaths. \<forall>ast.
          requireMDXFileSync example_platform example_files path = Inr (None, ast) \<longrightarrow>
          ?tick' path = ?tick path \<or> 1593561600000 < ?tick path \<and> 1593561600000 < ?tick' path)"
    using example_only_b_without_meta by (auto simp: example_scanDir)
  have ignores: "\<forall>x y mdxSrc path.
      requireMDXSync example_platform (example_files(exportPath := x, rssPath := y)) mdxSrc path
        = requireMDXSync example_platform example_files mdxSrc path"
    by (simp add: example_platform_def)
  from run late completes have 1: "main example_platform example_root 1593561600000 ?tick'
      (\<lambda>path. True) example_files = (None, example_written example_published)"
    by (elim conjE) simp
  have 2: "main_posts example_platform example_files example_root 1593561600000 ?tick
      = Inr example_published"
    by (rule example_main_posts)
  from run completes 2 have 3: "example_written example_published
     = example_files(exportPath \<mapsto> listing_source example_platform example_published,
                     rssPath \<mapsto> Rss_draw example_platform example_published)"
    by (elim conjE) simp
  from w [where writable = "\<lambda>path. False"] 2
  have 4: "main example_platform example_root 1593561600000 ?tick (\<lambda>path. False)
     example_files = (Some WriteError, example_files)"
    by blast
  from w [where writable = "\<lambda>path. path \<noteq> rssPath"] 2 paths_distinct
  have 5: "main example_platform example_root 1593561600000 ?tick (\<lambda>path. path \<noteq> rssPath)
     example_files
     = (Some WriteError,
        example_files(exportPath \<mapsto> listing_source example_platform example_published))"
    by blast
  from run ignores completes
  have before: "\<forall>x y. main example_platform example_root 1593561600000 ?tick (\<lambda>path. True)
      (example_files(exportPath := x, rssPath := y)) = (None, example_written example_published)"
    and 7: "main example_platform example_root 1593561600000 ?tick (\<lambda>path. True)
     (example_written example_published) = (None, example_written example_published)"
    by blast+
  from before have 6: "main example_platform example_root 1593561600000 ?tick (\<lambda>path. True)
     (example_files(exportPath := None, rssPath := Some ''an older feed''))
     = (None, example_written example_published)"
    by blast
  from run completes have 8: "main example_platform (Dir ((''index.gen.js'', File) # example_entries))
      1593561600000 ?tick (\<lambda>path. True) example_files = (None, example_written example_published)"
    by (elim conjE) (simp add: example_root_def)
  from 1 2 3 4 5 6 7 8 show ?thesis
    by (intro conjI)
qed

end
